theory Spec2Isabelle
  imports Complex_Main
begin

section \<open>Python values and exceptions\<close>

text \<open>
  The module \<^verbatim>\<open>rsf.py\<close> computes with Python floats and one-dimensional numpy float
  arrays. Floats are modelled as reals: rounding and the overflow of \<^verbatim>\<open>math.exp\<close> are
  outside the model. An attribute that \<^verbatim>\<open>__init__\<close> sets to \<^verbatim>\<open>None\<close> is a
  \<open>real option\<close>; every exception the source can raise is a value of \<open>error\<close>, and a
  function that can raise returns \<open>error + 'a\<close>. What a raise leaves behind in the objects
  is followed only where a function returns a pair with the object.

  \<open>NotFinite\<close> is no exception. numpy divides a numpy scalar by zero without raising: it
  warns, and the quotient is \<^verbatim>\<open>inf\<close> or \<^verbatim>\<open>nan\<close>, which no real is. \<open>NotFinite\<close> says that
  the computation has left the reals there; the model follows it no further.
\<close>

datatype error =
    TypeError | ValueError | ZeroDivisionError | NameError
  | AttributeError | IndexError | RuntimeError | NotFinite

fun seq :: "error + 'a \<Rightarrow> ('a \<Rightarrow> error + 'b) \<Rightarrow> error + 'b" where
  "seq (Inl e) f = Inl e"
| "seq (Inr x) f = f x"

text \<open>\<^verbatim>\<open>x * y\<close>, \<^verbatim>\<open>x - y\<close> and \<^verbatim>\<open>x / y\<close> on operands that are a float or \<^verbatim>\<open>None\<close>.\<close>

definition mul :: "real option \<Rightarrow> real option \<Rightarrow> error + real" where
  "mul x y = (case (x, y) of (Some p, Some q) \<Rightarrow> Inr (p * q) | _ \<Rightarrow> Inl TypeError)"

definition sub :: "real option \<Rightarrow> real option \<Rightarrow> error + real" where
  "sub x y = (case (x, y) of (Some p, Some q) \<Rightarrow> Inr (p - q) | _ \<Rightarrow> Inl TypeError)"

definition truediv :: "real option \<Rightarrow> real option \<Rightarrow> error + real" where
  "truediv x y =
     (case (x, y) of
        (Some p, Some q) \<Rightarrow> if q = 0 then Inl ZeroDivisionError else Inr (p / q)
      | _ \<Rightarrow> Inl TypeError)"

text \<open>
  \<^verbatim>\<open>x / y\<close> with a numpy scalar as \<open>x\<close>. Inside a step \<^verbatim>\<open>system.mu\<close> and every
  \<^verbatim>\<open>state\<close> are entries of the array \<open>w\<close>, so the dividends of the divisions by \<^verbatim>\<open>Dc\<close>
  and by \<^verbatim>\<open>a\<close> are numpy scalars. (Called with a Python float as \<^verbatim>\<open>state\<close>, the same
  division by a zero \<^verbatim>\<open>Dc\<close> raises \<^verbatim>\<open>ZeroDivisionError\<close>.)
\<close>

definition np_truediv :: "real option \<Rightarrow> real option \<Rightarrow> error + real" where
  "np_truediv x y =
     (case (x, y) of
        (Some p, Some q) \<Rightarrow> if q = 0 then Inl NotFinite else Inr (p / q)
      | _ \<Rightarrow> Inl TypeError)"

text \<open>\<^verbatim>\<open>math.log\<close> raises \<^verbatim>\<open>ValueError\<close> (math domain error) outside the positive reals.\<close>

definition math_log :: "real \<Rightarrow> error + real" where
  "math_log x = (if 0 < x then Inr (ln x) else Inl ValueError)"

section \<open>State relations\<close>

text \<open>
  \<^verbatim>\<open>class StateRelation\<close> with its three subclasses. The subclass is the field \<open>relation\<close>;
  \<open>b\<close>, \<open>Dc\<close> and \<open>state\<close> are \<^verbatim>\<open>None\<close> after \<^verbatim>\<open>__init__\<close>. The state relations
  in the list of a system are distinct objects, each a record of the list.
\<close>

datatype relation = DieterichState | RuinaState | PrzState

record StateRelation =
  relation :: relation
  b :: "real option"
  Dc :: "real option"
  state :: "real option"

text \<open>
  \<^verbatim>\<open>class ExternalSystem\<close>. \<open>mu\<close> is created by the first integration step, and
  \<open>model_time\<close> and \<open>loadpoint_velocity\<close> are read from the system although
  \<^verbatim>\<open>ExternalSystem.__init__\<close> creates none of the three: there \<open>None\<close> stands for a
  missing attribute, and reading it raises \<^verbatim>\<open>AttributeError\<close>.
\<close>

record ExternalSystem =
  mu0 :: "real option"
  a :: "real option"
  k :: "real option"
  v :: "real option"
  vref :: "real option"
  state_relations :: "StateRelation list"
  mu :: "real option"
  model_time :: "real list option"
  loadpoint_velocity :: "real list option"

definition getattr :: "'x option \<Rightarrow> error + 'x" where
  "getattr x = (case x of None \<Rightarrow> Inl AttributeError | Some y \<Rightarrow> Inr y)"

text \<open>\<^verbatim>\<open>return self.b * log(system.vref * self.state / self.Dc)\<close>\<close>

definition velocity_component :: "StateRelation \<Rightarrow> ExternalSystem \<Rightarrow> error + real" where
  "velocity_component self system =
     seq (mul (vref system) (state self)) (\<lambda>x.
     seq (np_truediv (Some x) (Dc self)) (\<lambda>y.
     seq (math_log y) (\<lambda>l.
     mul (b self) (Some l))))"

text \<open>
  \<^verbatim>\<open>_set_steady_state\<close>: \<^verbatim>\<open>self.state = self.Dc/system.vref\<close>, and for \<^verbatim>\<open>PrzState\<close>
  \<^verbatim>\<open>self.state = 2 * self.Dc / system.vref\<close>.
\<close>

definition set_steady_state :: "StateRelation \<Rightarrow> ExternalSystem \<Rightarrow> error + StateRelation" where
  "set_steady_state self system =
     (case relation self of
        PrzState \<Rightarrow>
          seq (mul (Some 2) (Dc self)) (\<lambda>x.
          seq (truediv (Some x) (vref system)) (\<lambda>s.
          Inr (self\<lparr>state := Some s\<rparr>)))
      | _ \<Rightarrow>
          seq (truediv (Dc self) (vref system)) (\<lambda>s.
          Inr (self\<lparr>state := Some s\<rparr>)))"

text \<open>
  The module neither defines nor imports a name \<^verbatim>\<open>_steady_state\<close>: looking it up in
  \<^verbatim>\<open>self.state = _steady_state(self, system)\<close> raises \<^verbatim>\<open>NameError\<close> before anything is
  assigned.
\<close>

definition steady_state_global :: "(StateRelation \<Rightarrow> ExternalSystem \<Rightarrow> error + real) option" where
  "steady_state_global = None"

text \<open>
  The value \<^verbatim>\<open>evolve_state\<close> returns in the three subclasses:
  \<^verbatim>\<open>1. - system.v * self.state / self.Dc\<close>,
  \<^verbatim>\<open>-1 * (system.v * self.state / self.Dc) * log(system.v * self.state / self.Dc)\<close> and
  \<^verbatim>\<open>1. - (system.v * self.state / (2 * self.Dc))**2\<close>.
\<close>

definition rate :: "StateRelation \<Rightarrow> ExternalSystem \<Rightarrow> error + real" where
  "rate self system =
     (case relation self of
        DieterichState \<Rightarrow>
          seq (mul (v system) (state self)) (\<lambda>x.
          seq (np_truediv (Some x) (Dc self)) (\<lambda>y.
          Inr (1 - y)))
      | RuinaState \<Rightarrow>
          seq (mul (v system) (state self)) (\<lambda>x.
          seq (np_truediv (Some x) (Dc self)) (\<lambda>y.
          seq (mul (v system) (state self)) (\<lambda>x'.
          seq (np_truediv (Some x') (Dc self)) (\<lambda>y'.
          seq (math_log y') (\<lambda>l.
          Inr (-1 * y * l))))))
      | PrzState \<Rightarrow>
          seq (mul (v system) (state self)) (\<lambda>x.
          seq (mul (Some 2) (Dc self)) (\<lambda>d.
          seq (np_truediv (Some x) (Some d)) (\<lambda>y.
          Inr (1 - y ^ 2)))))"

text \<open>
  \<^verbatim>\<open>evolve_state\<close> returns the rate or the exception, and the object as the call leaves it.
\<close>

definition evolve_state ::
  "StateRelation \<Rightarrow> ExternalSystem \<Rightarrow> (error + real) \<times> StateRelation" where
  "evolve_state self system =
     (if state self = None then
        (case steady_state_global of
           None \<Rightarrow> (Inl NameError, self)
         | Some f \<Rightarrow>
             (case f self system of
                Inl e \<Rightarrow> (Inl e, self)
              | Inr s \<Rightarrow> (rate (self\<lparr>state := Some s\<rparr>) system, self\<lparr>state := Some s\<rparr>)))
      else (rate self system, self))"


section \<open>The external system\<close>

text \<open>The loop \<^verbatim>\<open>for state in self.state_relations: v_contribution += ...\<close>.\<close>

fun v_contribution_loop :: "StateRelation list \<Rightarrow> ExternalSystem \<Rightarrow> real \<Rightarrow> error + real" where
  "v_contribution_loop [] system acc = Inr acc"
| "v_contribution_loop (r # rs) system acc =
     seq (velocity_component r system) (\<lambda>c. v_contribution_loop rs system (acc + c))"

text \<open>\<^verbatim>\<open>self.v = self.vref * exp((self.mu - self.mu0 - v_contribution) / self.a)\<close>\<close>

definition velocity_evolution :: "ExternalSystem \<Rightarrow> error + ExternalSystem" where
  "velocity_evolution self =
     seq (v_contribution_loop (state_relations self) self 0) (\<lambda>v_contribution.
     seq (getattr (mu self)) (\<lambda>m.
     seq (sub (Some m) (mu0 self)) (\<lambda>x.
     seq (np_truediv (Some (x - v_contribution)) (a self)) (\<lambda>z.
     seq (mul (vref self) (Some (exp z))) (\<lambda>nv.
     Inr (self\<lparr>v := Some nv\<rparr>))))))"

text \<open>\<^verbatim>\<open>return self.k * (loadpoint_vel - self.v)\<close>\<close>

definition friction_evolution :: "ExternalSystem \<Rightarrow> real \<Rightarrow> error + real" where
  "friction_evolution self loadpoint_vel =
     seq (sub (Some loadpoint_vel) (v self)) (\<lambda>d. mul (k self) (Some d))"

section \<open>The simulator\<close>

text \<open>
  \<^verbatim>\<open>results\<close> is the object that \<^verbatim>\<open>RateState.__init__\<close> creates with \<^verbatim>\<open>namedtuple\<close>; its
  five attributes hold a value once \<^verbatim>\<open>solve\<close> has assigned them. An entry of
  \<open>slider_velocity\<close> is \<open>None\<close> where numpy left the finite reals (\<^verbatim>\<open>nan\<close> or \<^verbatim>\<open>inf\<close>);
  the model does not follow IEEE arithmetic further.
\<close>

record results =
  time :: "real list option"
  displacement :: "real list option"
  slider_velocity :: "real option list option"
  friction :: "real list option"
  states :: "real list list option"

text \<open>
  \<^verbatim>\<open>class RateState\<close>: its own \<open>model_time\<close> (\<^verbatim>\<open>None\<close> after \<^verbatim>\<open>__init__\<close>) and
  \<open>loadpoint_velocity\<close>, and the address of its results object in the store.
\<close>

record RateState =
  model_time :: "real list option"
  loadpoint_velocity :: "real list"
  results :: nat

text \<open>numpy indexing: \<^verbatim>\<open>arr[mask]\<close> with a boolean array, and \<^verbatim>\<open>arr[-1]\<close>.\<close>

definition boolean_index :: "'x list \<Rightarrow> bool list \<Rightarrow> error + 'x list" where
  "boolean_index arr sel =
     (if length sel \<noteq> length arr then Inl IndexError
      else Inr (map fst (filter snd (zip arr sel))))"

definition last_item :: "'x list \<Rightarrow> error + 'x" where
  "last_item arr = (if arr = [] then Inl IndexError else Inr (last arr))"

text \<open>\<^verbatim>\<open>system.loadpoint_velocity[system.model_time <= t][-1]\<close>\<close>

definition loadpoint_lookup :: "ExternalSystem \<Rightarrow> real \<Rightarrow> error + real" where
  "loadpoint_lookup system t =
     seq (getattr (ExternalSystem.loadpoint_velocity system)) (\<lambda>lp.
     seq (getattr (ExternalSystem.model_time system)) (\<lambda>grid.
     seq (boolean_index lp (map (\<lambda>x. x \<le> t) grid)) last_item))"

text \<open>
  \<^verbatim>\<open>for i, state_variable in enumerate(system.state_relations): state_variable.state = w[i+1]\<close>;
  \<^verbatim>\<open>w[i+1]\<close> raises \<^verbatim>\<open>IndexError\<close> past the end of \<open>w\<close>.
\<close>

fun assign_states :: "StateRelation list \<Rightarrow> real list \<Rightarrow> nat \<Rightarrow> error + StateRelation list" where
  "assign_states [] w i = Inr []"
| "assign_states (r # rs) w i =
     (if i + 1 < length w
      then seq (assign_states rs w (i + 1)) (\<lambda>rs'. Inr (r\<lparr>state := Some (w ! (i + 1))\<rparr> # rs'))
      else Inl IndexError)"

text \<open>
  \<^verbatim>\<open>for state_variable in system.state_relations: step_results.append(state_variable.evolve_state(system))\<close>;
  \<^verbatim>\<open>evolve_state\<close> reads \<^verbatim>\<open>system.v\<close> and no other attribute of the system.
\<close>

fun evolve_loop ::
  "StateRelation list \<Rightarrow> ExternalSystem \<Rightarrow> (error + real list) \<times> StateRelation list" where
  "evolve_loop [] system = (Inr [], [])"
| "evolve_loop (r # rs) system =
     (case evolve_state r system of
        (Inl e, r') \<Rightarrow> (Inl e, r' # rs)
      | (Inr dtheta_dt, r') \<Rightarrow>
          (case evolve_loop rs system of
             (Inl e, rs') \<Rightarrow> (Inl e, r' # rs')
           | (Inr ds, rs') \<Rightarrow> (Inr (dtheta_dt # ds), r' # rs')))"

text \<open>
  \<^verbatim>\<open>_integrationStep(self, w, t, system)\<close> returns the step results and the system as the
  step leaves it. \<open>self\<close> is not read.
\<close>

definition integrationStep ::
  "RateState \<Rightarrow> real list \<Rightarrow> real \<Rightarrow> ExternalSystem \<Rightarrow> error + real list \<times> ExternalSystem" where
  "integrationStep self w t system =
     (if w = [] then Inl IndexError
      else
        seq (assign_states (state_relations system) w 0) (\<lambda>rs.
        seq (velocity_evolution (system\<lparr>mu := Some (w ! 0), state_relations := rs\<rparr>)) (\<lambda>system'.
        seq (loadpoint_lookup system' t) (\<lambda>loadpoint_vel.
        seq (friction_evolution system' loadpoint_vel) (\<lambda>dmu_dt.
        (case evolve_loop (state_relations system') system' of
           (Inl e, rs') \<Rightarrow> Inl e
         | (Inr ds, rs') \<Rightarrow> Inr (dmu_dt # ds, system'\<lparr>state_relations := rs'\<rparr>)))))))"


text \<open>\<^verbatim>\<open>readyCheck\<close>: \<^verbatim>\<open>return True\<close>.\<close>

definition readyCheck :: "RateState \<Rightarrow> bool" where
  "readyCheck self = True"

subsection \<open>numpy arrays\<close>

text \<open>
  A numpy float that is \<^verbatim>\<open>nan\<close> or \<^verbatim>\<open>inf\<close> is \<open>None\<close>: numpy warns and goes on where
  \<^verbatim>\<open>math\<close> raises. A Python operand that is \<^verbatim>\<open>None\<close> raises \<^verbatim>\<open>TypeError\<close>.
\<close>

definition np_scalar_mul :: "real option \<Rightarrow> real option list \<Rightarrow> error + real option list" where
  "np_scalar_mul c arr =
     (case c of None \<Rightarrow> Inl TypeError | Some q \<Rightarrow> Inr (map (map_option (\<lambda>x. q * x)) arr))"

definition np_div_scalar :: "real option list \<Rightarrow> real option \<Rightarrow> error + real option list" where
  "np_div_scalar arr c =
     (case c of
        None \<Rightarrow> Inl TypeError
      | Some q \<Rightarrow> Inr (map (\<lambda>x. if q = 0 then None else map_option (\<lambda>y. y / q) x) arr))"

definition np_sub_scalar :: "real option list \<Rightarrow> real option \<Rightarrow> error + real option list" where
  "np_sub_scalar arr c =
     (case c of None \<Rightarrow> Inl TypeError | Some q \<Rightarrow> Inr (map (map_option (\<lambda>x. x - q)) arr))"

definition np_log :: "real option list \<Rightarrow> real option list" where
  "np_log arr = map (\<lambda>x. case x of None \<Rightarrow> None | Some y \<Rightarrow> if 0 < y then Some (ln y) else None) arr"

definition np_exp :: "real option list \<Rightarrow> real option list" where
  "np_exp arr = map (map_option exp) arr"

definition np_add :: "real option list \<Rightarrow> real option list \<Rightarrow> real option list" where
  "np_add xs ys =
     map2 (\<lambda>x y. case (x, y) of (Some p, Some q) \<Rightarrow> Some (p + q) | _ \<Rightarrow> None) xs ys"

definition np_sub :: "real option list \<Rightarrow> real option list \<Rightarrow> real option list" where
  "np_sub xs ys =
     map2 (\<lambda>x y. case (x, y) of (Some p, Some q) \<Rightarrow> Some (p - q) | _ \<Rightarrow> None) xs ys"

text \<open>
  \<^verbatim>\<open>xs * ys\<close> on one-dimensional arrays: an array of length one is broadcast, any other
  difference of lengths raises \<^verbatim>\<open>ValueError\<close>.
\<close>

definition np_mul :: "real list \<Rightarrow> real list \<Rightarrow> error + real list" where
  "np_mul xs ys =
     (if length xs = length ys then Inr (map2 (*) xs ys)
      else if length xs = 1 then Inr (map (\<lambda>y. hd xs * y) ys)
      else if length ys = 1 then Inr (map (\<lambda>x. x * hd ys) xs)
      else Inl ValueError)"

fun ediff1d :: "real list \<Rightarrow> real list" where
  "ediff1d (x # y # zs) = (y - x) # ediff1d (y # zs)"
| "ediff1d zs = []"

fun cumsum_from :: "real \<Rightarrow> real list \<Rightarrow> real list" where
  "cumsum_from acc [] = []"
| "cumsum_from acc (x # xs) = (acc + x) # cumsum_from (acc + x) xs"

definition cumsum :: "real list \<Rightarrow> real list" where
  "cumsum xs = cumsum_from 0 xs"

subsection \<open>solve\<close>

text \<open>
  \<^verbatim>\<open>scipy.integrate.odeint\<close> is not part of the module: it is a parameter, a function of
  the right-hand side, the initial vector and the grid that returns the solution matrix
  (one row for each grid time) or raises. The tolerances in \<^verbatim>\<open>odeint_kwargs\<close> belong to
  that parameter, and it returns an array with a row as long as \<^verbatim>\<open>w0\<close> for each grid
  time. The step writes only \<open>mu\<close>, \<open>v\<close> and the \<open>state\<close> of every relation, and writes
  each of them before it reads it (\<open>func_scratch\<close>, \<open>integrationStep_frame\<close>), so the
  right-hand side handed over is the function of \<open>w\<close> and \<open>t\<close> that the step computes on
  the system as \<^verbatim>\<open>solve\<close> prepared it. The scratch values the integration leaves in the
  system depend on the last call of the integrator and are not returned.
\<close>

type_synonym integrator =
  "(real list \<Rightarrow> real \<Rightarrow> error + real list) \<Rightarrow> real list \<Rightarrow> real list \<Rightarrow> error + real list list"

text \<open>
  The function \<^verbatim>\<open>odeint\<close> calls: \<^verbatim>\<open>self._integrationStep(w, t, system)\<close>, for its value.
\<close>

definition func :: "RateState \<Rightarrow> ExternalSystem \<Rightarrow> real list \<Rightarrow> real \<Rightarrow> error + real list" where
  "func self system w t = map_sum id fst (integrationStep self w t system)"

text \<open>
  \<^verbatim>\<open>for state_variable in system.state_relations: state_variable._set_steady_state(system);
  w0.append(state_variable.state)\<close>
\<close>

fun steady_state_loop :: "StateRelation list \<Rightarrow> ExternalSystem \<Rightarrow> error + StateRelation list" where
  "steady_state_loop [] system = Inr []"
| "steady_state_loop (r # rs) system =
     seq (set_steady_state r system) (\<lambda>r'.
     seq (steady_state_loop rs system) (\<lambda>rs'. Inr (r' # rs')))"

text \<open>\<^verbatim>\<open>odeint\<close> turns \<^verbatim>\<open>w0\<close> into a float array; \<^verbatim>\<open>None\<close> is no float.\<close>

fun asarray :: "real option list \<Rightarrow> error + real list" where
  "asarray [] = Inr []"
| "asarray (None # xs) = Inl TypeError"
| "asarray (Some x # xs) = seq (asarray xs) (\<lambda>ys. Inr (x # ys))"

text \<open>
  \<^verbatim>\<open>for i, state_variable in enumerate(system.state_relations): velocity_contribution +=
  state_variable.b * np.log(system.vref * self.results.states[:, i] / state_variable.Dc)\<close>.
  The scalar \<^verbatim>\<open>0\<close> it starts from is broadcast to the length of the arrays.
\<close>

fun velocity_contribution_loop ::
  "StateRelation list \<Rightarrow> nat \<Rightarrow> ExternalSystem \<Rightarrow> real list list \<Rightarrow> real option list
     \<Rightarrow> error + real option list" where
  "velocity_contribution_loop [] i system sts acc = Inr acc"
| "velocity_contribution_loop (r # rs) i system sts acc =
     seq (np_scalar_mul (vref system) (map (\<lambda>row. Some (row ! i)) sts)) (\<lambda>x.
     seq (np_div_scalar x (Dc r)) (\<lambda>y.
     seq (np_scalar_mul (b r) (np_log y)) (\<lambda>c.
     velocity_contribution_loop rs (i + 1) system sts (np_add acc c))))"

text \<open>
  \<^verbatim>\<open>system.vref * np.exp((self.results.friction - system.mu0 - velocity_contribution) / system.a)\<close>
\<close>

definition slider_velocity_of ::
  "ExternalSystem \<Rightarrow> real list \<Rightarrow> real option list \<Rightarrow> error + real option list" where
  "slider_velocity_of system fr velocity_contribution =
     seq (np_sub_scalar (map Some fr) (mu0 system)) (\<lambda>x.
     seq (np_div_scalar (np_sub x velocity_contribution) (a system)) (\<lambda>y.
     np_scalar_mul (vref system) (np_exp y)))"

text \<open>
  \<^verbatim>\<open>dt = np.ediff1d(system.model_time)\<close>,
  \<^verbatim>\<open>np.cumsum(system.loadpoint_velocity[:-1] * dt)\<close>, \<^verbatim>\<open>np.insert(..., 0, 0)\<close>.
\<close>

definition displacement_of :: "ExternalSystem \<Rightarrow> real list \<Rightarrow> error + real list" where
  "displacement_of system grid =
     seq (getattr (ExternalSystem.loadpoint_velocity system)) (\<lambda>lp.
     seq (np_mul (butlast lp) (ediff1d grid)) (\<lambda>steps.
     Inr (0 # cumsum steps)))"

text \<open>
  \<^verbatim>\<open>solve(self, system)\<close> on a store of results objects: it returns \<^verbatim>\<open>self.results\<close>, the
  address held by the simulator, or the exception, and the store as the call leaves it.
\<close>

definition solve ::
  "integrator \<Rightarrow> RateState \<Rightarrow> ExternalSystem \<Rightarrow> (nat \<Rightarrow> results)
     \<Rightarrow> (error + nat) \<times> (nat \<Rightarrow> results)" where
  "solve odeint self system store =
     (if readyCheck self \<noteq> True then (Inl RuntimeError, store)
      else
        case steady_state_loop (state_relations system) system of
          Inl e \<Rightarrow> (Inl e, store)
        | Inr rs \<Rightarrow>
            (case getattr (ExternalSystem.model_time system) of
               Inl e \<Rightarrow> (Inl e, store)
             | Inr grid \<Rightarrow>
                 (case seq (asarray (mu0 system # map state rs))
                         (\<lambda>w0. odeint (func self (system\<lparr>state_relations := rs\<rparr>)) w0 grid) of
                    Inl e \<Rightarrow> (Inl e, store)
                  | Inr wsol \<Rightarrow>
                      (let fr = map (\<lambda>row. row ! 0) wsol;
                           sts = map tl wsol;
                           store1 = store(results self := (store (results self))
                                      \<lparr>friction := Some fr, states := Some sts, time := Some grid\<rparr>)
                       in case seq (velocity_contribution_loop rs 0 system sts
                                      (map (\<lambda>_. Some 0) wsol))
                                 (slider_velocity_of system fr) of
                            Inl e \<Rightarrow> (Inl e, store1)
                          | Inr sv \<Rightarrow>
                              (let store2 = store1(results self := (store1 (results self))
                                              \<lparr>slider_velocity := Some sv\<rparr>)
                               in case displacement_of system grid of
                                    Inl e \<Rightarrow> (Inl e, store2)
                                  | Inr d \<Rightarrow>
                                      (Inr (results self),
                                       store2(results self := (store2 (results self))
                                         \<lparr>displacement := Some d\<rparr>)))))))"


subsection \<open>Construction\<close>

text \<open>
  \<^verbatim>\<open>ExternalSystem.__init__\<close> and \<^verbatim>\<open>RateState.__init__\<close>. The simulator's results object
  is created once, here, at an address \<open>r\<close> of the store; its attributes have no value yet.
\<close>

definition ExternalSystem_init :: ExternalSystem where
  "ExternalSystem_init =
     \<lparr>mu0 = None, a = None, k = None, v = None, vref = None, state_relations = [],
      mu = None, model_time = None, loadpoint_velocity = None\<rparr>"

definition no_results :: results where
  "no_results =
     \<lparr>time = None, displacement = None, slider_velocity = None, friction = None, states = None\<rparr>"

definition RateState_init :: "nat \<Rightarrow> (nat \<Rightarrow> results) \<Rightarrow> RateState \<times> (nat \<Rightarrow> results)" where
  "RateState_init r store =
     (\<lparr>model_time = None, loadpoint_velocity = [], results = r\<rparr>, store(r := no_results))"

subsection \<open>Integrators\<close>

text \<open>
  The explicit Euler method on the grid, an integrator to run \<^verbatim>\<open>solve\<close> with on concrete
  inputs. As \<^verbatim>\<open>odeint\<close> does, it raises \<^verbatim>\<open>RuntimeError\<close> when the right-hand side returns
  an array of another size than the initial vector.
\<close>

fun euler :: integrator where
  "euler f y [] = Inr []"
| "euler f y [t] = Inr [y]"
| "euler f y (t # t' # grid) =
     seq (f y t) (\<lambda>d.
       if length d \<noteq> length y then Inl RuntimeError
       else seq (euler f (map2 (\<lambda>yi di. yi + (t' - t) * di) y d) (t' # grid)) (\<lambda>rows.
            Inr (y # rows)))"

subsection \<open>The worked example\<close>

text \<open>
  The parameters of \<^verbatim>\<open>examples/velocity_step_two_state.py\<close>: two Dieterich relations,
  here on a grid of four times with a velocity step at the third.
\<close>

definition state1 :: StateRelation where
  "state1 = \<lparr>relation = DieterichState, b = Some (1 / 100), Dc = Some 10, state = None\<rparr>"

definition state2 :: StateRelation where
  "state2 = \<lparr>relation = DieterichState, b = Some (1 / 1000), Dc = Some 5, state = None\<rparr>"

definition example_system :: ExternalSystem where
  "example_system =
     ExternalSystem_init
       \<lparr>mu0 := Some (3 / 5), a := Some (1 / 200), k := Some (1 / 1000), v := Some 1,
        vref := Some 1, state_relations := [state1, state2],
        ExternalSystem.model_time := Some [0, 1, 2, 3],
        ExternalSystem.loadpoint_velocity := Some [1, 1, 10, 10]\<rparr>"

section \<open>Verification\<close>

lemmas arith_defs = mul_def sub_def truediv_def np_truediv_def math_log_def getattr_def

subsection \<open>State relations\<close>

text \<open>
  C3. On a system whose \<open>vref\<close> is positive and whose \<open>v\<close> is set, a state relation
  with \<open>b\<close> set, \<open>Dc\<close> positive and an initialised \<open>state\<close> computes the closed forms:
  the steady state is \<open>Dc / vref\<close> (Dieterich, Ruina) or \<open>2 * Dc / vref\<close> (PRZ); the
  velocity component is \<open>b * ln (vref * state / Dc)\<close>; the rate is \<open>1 - v * state / Dc\<close>
  (Dieterich), \<open>- (v * state / Dc) * ln (v * state / Dc)\<close> (Ruina) or
  \<open>1 - (v * state / (2 * Dc))\<^sup>2\<close> (PRZ). Where the argument of a logarithm is not
  positive the formula has no value, and \<^verbatim>\<open>math.log\<close> raises \<^verbatim>\<open>ValueError\<close>. The object
  is left as it was by \<open>evolve_state\<close>.
\<close>

theorem state_relation_closed_forms:
  assumes "vref system = Some vr" and "0 < vr"
    and "Dc self = Some d" and "0 < d"
    and "state self = Some s" and "b self = Some bb" and "v system = Some vv"
  shows "set_steady_state self system =
           Inr (self\<lparr>state := Some (case relation self of
                  DieterichState \<Rightarrow> d / vr | RuinaState \<Rightarrow> d / vr | PrzState \<Rightarrow> 2 * d / vr)\<rparr>)
       \<and> velocity_component self system =
           (if 0 < vr * s / d then Inr (bb * ln (vr * s / d)) else Inl ValueError)
       \<and> evolve_state self system =
           (case relation self of
              DieterichState \<Rightarrow> Inr (1 - vv * s / d)
            | RuinaState \<Rightarrow>
                if 0 < vv * s / d then Inr (- (vv * s / d) * ln (vv * s / d)) else Inl ValueError
            | PrzState \<Rightarrow> Inr (1 - (vv * s / (2 * d)) ^ 2),
            self)"
proof (intro conjI)
  show "set_steady_state self system =
           Inr (self\<lparr>state := Some (case relation self of
                  DieterichState \<Rightarrow> d / vr | RuinaState \<Rightarrow> d / vr | PrzState \<Rightarrow> 2 * d / vr)\<rparr>)"
    using assms by (simp add: set_steady_state_def arith_defs split: relation.splits)
  show "velocity_component self system =
           (if 0 < vr * s / d then Inr (bb * ln (vr * s / d)) else Inl ValueError)"
    using assms by (simp add: velocity_component_def arith_defs)
  show "evolve_state self system =
           (case relation self of
              DieterichState \<Rightarrow> Inr (1 - vv * s / d)
            | RuinaState \<Rightarrow>
                if 0 < vv * s / d then Inr (- (vv * s / d) * ln (vv * s / d)) else Inl ValueError
            | PrzState \<Rightarrow> Inr (1 - (vv * s / (2 * d)) ^ 2),
            self)"
    using assms by (simp add: evolve_state_def rate_def arith_defs split: relation.splits)
qed

theorem state_relation_closed_forms_witness:
  "vref \<lparr>mu0 = Some (3 / 5), a = Some (1 / 200), k = Some (1 / 1000), v = Some 1, vref = Some 1,
          state_relations = [], mu = None, model_time = None, loadpoint_velocity = None\<rparr> = Some 1
   \<and> (0::real) < 1
   \<and> Dc \<lparr>relation = RuinaState, b = Some (1 / 100), Dc = Some 10, state = Some 20\<rparr> = Some 10
   \<and> (0::real) < 10
   \<and> state \<lparr>relation = RuinaState, b = Some (1 / 100), Dc = Some 10, state = Some 20\<rparr> = Some 20
   \<and> b \<lparr>relation = RuinaState, b = Some (1 / 100), Dc = Some 10, state = Some 20\<rparr> = Some (1 / 100)
   \<and> v \<lparr>mu0 = Some (3 / 5), a = Some (1 / 200), k = Some (1 / 1000), v = Some 1, vref = Some 1,
          state_relations = [], mu = None, model_time = None, loadpoint_velocity = None\<rparr> = Some 1
   \<and> set_steady_state
        \<lparr>relation = RuinaState, b = Some (1 / 100), Dc = Some 10, state = Some 20\<rparr>
        \<lparr>mu0 = Some (3 / 5), a = Some (1 / 200), k = Some (1 / 1000), v = Some 1, vref = Some 1,
          state_relations = [], mu = None, model_time = None, loadpoint_velocity = None\<rparr>
       = Inr \<lparr>relation = RuinaState, b = Some (1 / 100), Dc = Some 10, state = Some 10\<rparr>
   \<and> velocity_component
        \<lparr>relation = RuinaState, b = Some (1 / 100), Dc = Some 10, state = Some 20\<rparr>
        \<lparr>mu0 = Some (3 / 5), a = Some (1 / 200), k = Some (1 / 1000), v = Some 1, vref = Some 1,
          state_relations = [], mu = None, model_time = None, loadpoint_velocity = None\<rparr>
       = Inr (1 / 100 * ln 2)
   \<and> evolve_state
        \<lparr>relation = RuinaState, b = Some (1 / 100), Dc = Some 10, state = Some 20\<rparr>
        \<lparr>mu0 = Some (3 / 5), a = Some (1 / 200), k = Some (1 / 1000), v = Some 1, vref = Some 1,
          state_relations = [], mu = None, model_time = None, loadpoint_velocity = None\<rparr>
       = (Inr (- 2 * ln 2),
          \<lparr>relation = RuinaState, b = Some (1 / 100), Dc = Some 10, state = Some 20\<rparr>)"
  (is "?h1 \<and> ?h2 \<and> ?h3 \<and> ?h4 \<and> ?h5 \<and> ?h6 \<and> ?h7 \<and> ?c1 \<and> ?c2 \<and> ?c3")
proof -
  have h1: ?h1 and h2: ?h2 and h3: ?h3 and h4: ?h4 and h5: ?h5 and h6: ?h6 and h7: ?h7
    by simp_all
  note c = state_relation_closed_forms [OF h1 h2 h3 h4 h5 h6 h7]
  have ?c1 using conjunct1 [OF c] by simp
  moreover have ?c2 using conjunct1 [OF conjunct2 [OF c]] by simp
  moreover have ?c3 using conjunct2 [OF conjunct2 [OF c]] by simp
  ultimately show ?thesis using h1 h2 h3 h4 h5 h6 h7 by blast
qed

text \<open>
  C5. The specification has \<open>evolve_state\<close> and \<open>velocity_component\<close> fail with an error of
  their own for the uninitialised state, and substitute no default. The module has no such
  error. With \<open>state\<close> \<^verbatim>\<open>None\<close>, \<open>evolve_state\<close> enters the branch
  \<^verbatim>\<open>self.state = _steady_state(self, system)\<close>, which is written to put the steady state in
  the place of the missing one, and raises \<^verbatim>\<open>NameError\<close> there because the module defines
  no \<^verbatim>\<open>_steady_state\<close> (the method that computes the steady state is
  \<^verbatim>\<open>_set_steady_state\<close>); the object is left as it was. \<open>velocity_component\<close> has no check
  at all and raises the \<^verbatim>\<open>TypeError\<close> of the product with \<^verbatim>\<open>None\<close>.
\<close>

theorem uninitialized_state_raises:
  "evolve_state (self\<lparr>state := None\<rparr>) system = (Inl NameError, self\<lparr>state := None\<rparr>)
   \<and> velocity_component (self\<lparr>state := None\<rparr>) system = Inl TypeError
   \<and> steady_state_global = None
   \<and> evolve_state
        \<lparr>relation = DieterichState, b = Some (1 / 100), Dc = Some 10, state = None\<rparr>
        \<lparr>mu0 = Some (3 / 5), a = Some (1 / 200), k = Some (1 / 1000), v = Some 1, vref = Some 1,
          state_relations = [], mu = None, model_time = None, loadpoint_velocity = None\<rparr>
       = (Inl NameError,
          \<lparr>relation = DieterichState, b = Some (1 / 100), Dc = Some 10, state = None\<rparr>)
   \<and> velocity_component
        \<lparr>relation = DieterichState, b = Some (1 / 100), Dc = Some 10, state = None\<rparr>
        \<lparr>mu0 = Some (3 / 5), a = Some (1 / 200), k = Some (1 / 1000), v = Some 1, vref = Some 1,
          state_relations = [], mu = None, model_time = None, loadpoint_velocity = None\<rparr>
       = Inl TypeError
   \<and> set_steady_state
        \<lparr>relation = DieterichState, b = Some (1 / 100), Dc = Some 10, state = None\<rparr>
        \<lparr>mu0 = Some (3 / 5), a = Some (1 / 200), k = Some (1 / 1000), v = Some 1, vref = Some 1,
          state_relations = [], mu = None, model_time = None, loadpoint_velocity = None\<rparr>
       = Inr \<lparr>relation = DieterichState, b = Some (1 / 100), Dc = Some 10, state = Some 10\<rparr>"
proof (intro conjI)
  show "evolve_state (self\<lparr>state := None\<rparr>) system = (Inl NameError, self\<lparr>state := None\<rparr>)"
    by (simp add: evolve_state_def steady_state_global_def)
  show "velocity_component (self\<lparr>state := None\<rparr>) system = Inl TypeError"
    by (simp add: velocity_component_def mul_def split: option.splits)
  show "steady_state_global = None"
    by (simp add: steady_state_global_def)
  show "evolve_state
        \<lparr>relation = DieterichState, b = Some (1 / 100), Dc = Some 10, state = None\<rparr>
        \<lparr>mu0 = Some (3 / 5), a = Some (1 / 200), k = Some (1 / 1000), v = Some 1, vref = Some 1,
          state_relations = [], mu = None, model_time = None, loadpoint_velocity = None\<rparr>
       = (Inl NameError,
          \<lparr>relation = DieterichState, b = Some (1 / 100), Dc = Some 10, state = None\<rparr>)"
    by (simp add: evolve_state_def steady_state_global_def)
  show "velocity_component
        \<lparr>relation = DieterichState, b = Some (1 / 100), Dc = Some 10, state = None\<rparr>
        \<lparr>mu0 = Some (3 / 5), a = Some (1 / 200), k = Some (1 / 1000), v = Some 1, vref = Some 1,
          state_relations = [], mu = None, model_time = None, loadpoint_velocity = None\<rparr>
       = Inl TypeError"
    by (simp add: velocity_component_def mul_def)
  show "set_steady_state
        \<lparr>relation = DieterichState, b = Some (1 / 100), Dc = Some 10, state = None\<rparr>
        \<lparr>mu0 = Some (3 / 5), a = Some (1 / 200), k = Some (1 / 1000), v = Some 1, vref = Some 1,
          state_relations = [], mu = None, model_time = None, loadpoint_velocity = None\<rparr>
       = Inr \<lparr>relation = DieterichState, b = Some (1 / 100), Dc = Some 10, state = Some 10\<rparr>"
    by (simp add: set_steady_state_def truediv_def)
qed

subsection \<open>The loadpoint velocity of a step\<close>

lemma filter_last_index:
  assumes "length lp = length grid" and "i < length grid" and "grid ! i \<le> (t::real)"
  shows "\<exists>n<length grid. grid ! n \<le> t \<and> (\<forall>j<length grid. grid ! j \<le> t \<longrightarrow> j \<le> n)
       \<and> map fst (filter snd (zip lp (map (\<lambda>x. x \<le> t) grid))) \<noteq> []
       \<and> last (map fst (filter snd (zip lp (map (\<lambda>x. x \<le> t) grid)))) = lp ! n"
  using assms
proof (induction grid arbitrary: lp i rule: rev_induct)
  case Nil
  then show ?case by simp
next
  case (snoc x xs)
  then obtain lp' y where lp: "lp = lp' @ [y]" and len: "length lp' = length xs"
    by (metis length_append_singleton length_Suc_conv_rev)
  show ?case
  proof (cases "x \<le> t")
    case True
    then show ?thesis using lp len
      by (intro exI[of _ "length xs"]) (auto simp: nth_append)
  next
    case False
    with snoc.prems have i: "i < length xs" "xs ! i \<le> t"
      by (auto simp: nth_append less_Suc_eq)
    from snoc.IH[OF len i] obtain n where n: "n < length xs" "xs ! n \<le> t"
      "\<forall>j<length xs. xs ! j \<le> t \<longrightarrow> j \<le> n"
      "map fst (filter snd (zip lp' (map (\<lambda>x. x \<le> t) xs))) \<noteq> []"
      "last (map fst (filter snd (zip lp' (map (\<lambda>x. x \<le> t) xs)))) = lp' ! n"
      by blast
    show ?thesis using n False lp len
      by (intro exI[of _ n]) (auto simp: nth_append less_Suc_eq)
  qed
qed

text \<open>
  C2. With a time grid (sorted, as the data model has it) and a loadpoint velocity
  sequence of the same length, and \<open>t\<close> at or after the first grid time, the lookup of the
  step returns the velocity at the last index whose grid time is at most \<open>t\<close>, which is
  the latest grid time at most \<open>t\<close>: no interpolation and no lookahead. On the grid
  \<open>[0, 1, 2, 3]\<close> with velocities \<open>[5, 5, 9, 9]\<close> the lookup at \<open>1.5\<close> returns \<open>5\<close>.
\<close>

theorem loadpoint_lookup_zero_order_hold:
  assumes "ExternalSystem.model_time system = Some grid"
    and "ExternalSystem.loadpoint_velocity system = Some lp"
    and "length lp = length grid" and "sorted grid"
    and "grid \<noteq> []" and "hd grid \<le> t"
  shows "(\<exists>i<length grid. loadpoint_lookup system t = Inr (lp ! i) \<and> grid ! i \<le> t
            \<and> (\<forall>j<length grid. grid ! j \<le> t \<longrightarrow> j \<le> i \<and> grid ! j \<le> grid ! i))
       \<and> loadpoint_lookup
            (system\<lparr>ExternalSystem.model_time := Some [0, 1, 2, 3],
                    ExternalSystem.loadpoint_velocity := Some [5, 5, 9, 9]\<rparr>) 1.5 = Inr 5"
proof
  have "0 < length grid" and "grid ! 0 \<le> t"
    using assms(5,6) by (simp_all add: hd_conv_nth)
  from filter_last_index[OF assms(3) this] obtain n where n: "n < length grid" "grid ! n \<le> t"
    "\<forall>j<length grid. grid ! j \<le> t \<longrightarrow> j \<le> n"
    "map fst (filter snd (zip lp (map (\<lambda>x. x \<le> t) grid))) \<noteq> []"
    "last (map fst (filter snd (zip lp (map (\<lambda>x. x \<le> t) grid)))) = lp ! n"
    by blast
  have "loadpoint_lookup system t = Inr (lp ! n)"
    using assms(1-3) n(4,5)
    by (simp add: loadpoint_lookup_def getattr_def boolean_index_def last_item_def)
  moreover have "\<forall>j<length grid. grid ! j \<le> t \<longrightarrow> j \<le> n \<and> grid ! j \<le> grid ! n"
    using n(1,3) assms(4) by (auto simp: sorted_iff_nth_mono)
  ultimately show "\<exists>i<length grid. loadpoint_lookup system t = Inr (lp ! i) \<and> grid ! i \<le> t
            \<and> (\<forall>j<length grid. grid ! j \<le> t \<longrightarrow> j \<le> i \<and> grid ! j \<le> grid ! i)"
    using n(1,2) by blast
  show "loadpoint_lookup
            (system\<lparr>ExternalSystem.model_time := Some [0, 1, 2, 3],
                    ExternalSystem.loadpoint_velocity := Some [5, 5, 9, 9]\<rparr>) 1.5 = Inr 5"
    by (simp add: loadpoint_lookup_def getattr_def boolean_index_def last_item_def)
qed

theorem loadpoint_lookup_zero_order_hold_witness:
  "ExternalSystem.model_time
     \<lparr>mu0 = None, a = None, k = None, v = None, vref = None, state_relations = [], mu = None,
      model_time = Some [0, 1, 2, 3], loadpoint_velocity = Some [5, 5, 9, 9]\<rparr> = Some [0, 1, 2, 3]
   \<and> ExternalSystem.loadpoint_velocity
     \<lparr>mu0 = None, a = None, k = None, v = None, vref = None, state_relations = [], mu = None,
      model_time = Some [0, 1, 2, 3], loadpoint_velocity = Some [5, 5, 9, 9]\<rparr> = Some [5, 5, 9, 9]
   \<and> length [5, 5, 9, 9 :: real] = length [0, 1, 2, 3 :: real]
   \<and> sorted [0, 1, 2, 3 :: real] \<and> [0, 1, 2, 3 :: real] \<noteq> [] \<and> hd [0, 1, 2, 3 :: real] \<le> 3 / 2
   \<and> (\<exists>i<length [0, 1, 2, 3 :: real].
         loadpoint_lookup
           \<lparr>mu0 = None, a = None, k = None, v = None, vref = None, state_relations = [], mu = None,
            model_time = Some [0, 1, 2, 3], loadpoint_velocity = Some [5, 5, 9, 9]\<rparr> (3 / 2)
           = Inr ([5, 5, 9, 9] ! i) \<and> [0, 1, 2, 3 :: real] ! i \<le> 3 / 2
           \<and> (\<forall>j<length [0, 1, 2, 3 :: real]. [0, 1, 2, 3 :: real] ! j \<le> 3 / 2 \<longrightarrow>
                  j \<le> i \<and> [0, 1, 2, 3 :: real] ! j \<le> [0, 1, 2, 3] ! i))"
  (is "?h1 \<and> ?h2 \<and> ?h3 \<and> ?h4 \<and> ?h5 \<and> ?h6 \<and> ?c")
proof -
  have h1: ?h1 and h2: ?h2 and h3: ?h3 and h4: ?h4 and h5: ?h5 and h6: ?h6
    by simp_all
  have ?c
    by (rule conjunct1 [OF loadpoint_lookup_zero_order_hold [OF h1 h2 h3 h4 h5 h6]])
  with h1 h2 h3 h4 h5 h6 show ?thesis by blast
qed

text \<open>
  C10. At every \<open>t\<close> at or after the last grid time, also beyond it, the lookup is defined
  and returns the last loadpoint velocity.
\<close>

theorem loadpoint_lookup_past_end:
  assumes "ExternalSystem.model_time system = Some grid"
    and "ExternalSystem.loadpoint_velocity system = Some lp"
    and "length lp = length grid" and "grid \<noteq> []" and "last grid \<le> t"
  shows "loadpoint_lookup system t = Inr (last lp)"
proof -
  obtain lp' y where lp: "lp = lp' @ [y]"
    using assms(3,4) by (metis length_0_conv rev_exhaust)
  obtain grid' x where grid: "grid = grid' @ [x]"
    using assms(4) by (metis rev_exhaust)
  have "length lp' = length grid'" and "x \<le> t"
    using assms(3,5) lp grid by simp_all
  then show ?thesis
    using assms(1,2) lp grid
    by (simp add: loadpoint_lookup_def getattr_def boolean_index_def last_item_def)
qed

theorem loadpoint_lookup_past_end_witness:
  "ExternalSystem.model_time
     \<lparr>mu0 = None, a = None, k = None, v = None, vref = None, state_relations = [], mu = None,
      model_time = Some [0, 1], loadpoint_velocity = Some [5, 9]\<rparr> = Some [0, 1]
   \<and> ExternalSystem.loadpoint_velocity
     \<lparr>mu0 = None, a = None, k = None, v = None, vref = None, state_relations = [], mu = None,
      model_time = Some [0, 1], loadpoint_velocity = Some [5, 9]\<rparr> = Some [5, 9]
   \<and> length [5, 9 :: real] = length [0, 1 :: real] \<and> [0, 1 :: real] \<noteq> []
   \<and> last [0, 1 :: real] \<le> 7
   \<and> loadpoint_lookup
        \<lparr>mu0 = None, a = None, k = None, v = None, vref = None, state_relations = [], mu = None,
         model_time = Some [0, 1], loadpoint_velocity = Some [5, 9]\<rparr> 7 = Inr (last [5, 9])"
  (is "?h1 \<and> ?h2 \<and> ?h3 \<and> ?h4 \<and> ?h5 \<and> ?c")
proof -
  have h1: ?h1 and h2: ?h2 and h3: ?h3 and h4: ?h4 and h5: ?h5
    by simp_all
  have ?c
    by (rule loadpoint_lookup_past_end [OF h1 h2 h3 h4 h5])
  with h1 h2 h3 h4 h5 show ?thesis by blast
qed


subsection \<open>The integration step\<close>


lemma assign_states_nth:
  "i + length rs < length w \<Longrightarrow>
   assign_states rs w i =
     Inr (map (\<lambda>j. (rs ! j)\<lparr>state := Some (w ! (i + 1 + j))\<rparr>) [0..<length rs])"
proof (induction rs arbitrary: i)
  case Nil
  then show ?case by simp
next
  case (Cons r rs)
  from Cons.prems have "Suc i + length rs < length w" by simp
  from Cons.IH [OF this] Cons.prems show ?case
    by (simp add: map_upt_Suc del: upt_Suc)
qed

lemma v_contribution_loop_sum:
  assumes "vref system = Some vr"
    and "map b rs = map Some bs" and "map Dc rs = map Some ds"
    and "map state rs = map Some ths"
    and "\<forall>j<length rs. 0 < vr * ths ! j / ds ! j"
  shows "v_contribution_loop rs system acc =
           Inr (acc + (\<Sum>j<length rs. bs ! j * ln (vr * ths ! j / ds ! j)))"
  using assms(2-)
proof (induction rs arbitrary: bs ds ths acc)
  case Nil
  then show ?case by simp
next
  case (Cons r rs)
  from Cons.prems(1-3) obtain b0 bs' d0 ds' t0 ths' where
    eqs: "bs = b0 # bs'" "ds = d0 # ds'" "ths = t0 # ths'"
      "b r = Some b0" "Dc r = Some d0" "state r = Some t0"
      "map b rs = map Some bs'" "map Dc rs = map Some ds'" "map state rs = map Some ths'"
    by (auto simp: Cons_eq_map_conv)
  from Cons.prems(4) eqs have pos0: "0 < vr * t0 / d0"
    and pos: "\<forall>j<length rs. 0 < vr * ths' ! j / ds' ! j"
    by force+
  from pos0 have "d0 \<noteq> 0" by (auto simp: zero_less_divide_iff)
  then have "velocity_component r system = Inr (b0 * ln (vr * t0 / d0))"
    using eqs(4-6) assms(1) pos0 by (simp add: velocity_component_def arith_defs)
  then show ?case
    using Cons.IH [OF eqs(7-9) pos] unfolding eqs(1-3)
    by (simp add: sum.lessThan_Suc_shift add.assoc del: sum.lessThan_Suc)
qed

lemma evolve_loop_rates:
  assumes "v system = Some vv"
    and "map Dc rs = map Some ds" and "map state rs = map Some ths"
    and "\<forall>j<length rs. 0 < vv * ths ! j / ds ! j"
  shows "evolve_loop rs system =
           (Inr (map (\<lambda>j. case relation (rs ! j) of
                     DieterichState \<Rightarrow> 1 - vv * ths ! j / ds ! j
                   | RuinaState \<Rightarrow> - (vv * ths ! j / ds ! j) * ln (vv * ths ! j / ds ! j)
                   | PrzState \<Rightarrow> 1 - (vv * ths ! j / (2 * ds ! j)) ^ 2) [0..<length rs]), rs)"
  using assms(2-)
proof (induction rs arbitrary: ds ths)
  case Nil
  then show ?case by simp
next
  case (Cons r rs)
  from Cons.prems(1,2) obtain d0 ds' t0 ths' where
    eqs: "ds = d0 # ds'" "ths = t0 # ths'" "Dc r = Some d0" "state r = Some t0"
      "map Dc rs = map Some ds'" "map state rs = map Some ths'"
    by (auto simp: Cons_eq_map_conv)
  from Cons.prems(3) eqs have pos0: "0 < vv * t0 / d0"
    and pos: "\<forall>j<length rs. 0 < vv * ths' ! j / ds' ! j"
    by force+
  from pos0 have "d0 \<noteq> 0" by (auto simp: zero_less_divide_iff)
  then have "evolve_state r system =
     (Inr (case relation r of
             DieterichState \<Rightarrow> 1 - vv * t0 / d0
           | RuinaState \<Rightarrow> - (vv * t0 / d0) * ln (vv * t0 / d0)
           | PrzState \<Rightarrow> 1 - (vv * t0 / (2 * d0)) ^ 2), r)"
    using eqs(3,4) assms(1) pos0
    by (simp add: evolve_state_def rate_def arith_defs split: relation.splits)
  then show ?case
    using Cons.IH [OF eqs(5,6) pos] unfolding eqs(1,2)
    by (simp add: map_upt_Suc del: upt_Suc cong: relation.case_cong)
qed


lemma loadpoint_lookup_index:
  assumes "ExternalSystem.model_time system = Some grid"
    and "ExternalSystem.loadpoint_velocity system = Some lp"
    and "length lp = length grid" and "\<exists>g\<in>set grid. g \<le> t"
  shows "\<exists>i<length grid. loadpoint_lookup system t = Inr (lp ! i) \<and> grid ! i \<le> t
           \<and> (\<forall>j<length grid. grid ! j \<le> t \<longrightarrow> j \<le> i)"
proof -
  from assms(4) obtain i0 where "i0 < length grid" "grid ! i0 \<le> t"
    by (auto simp: in_set_conv_nth)
  from filter_last_index [OF assms(3) this] obtain n where n: "n < length grid" "grid ! n \<le> t"
    "\<forall>j<length grid. grid ! j \<le> t \<longrightarrow> j \<le> n"
    "map fst (filter snd (zip lp (map (\<lambda>x. x \<le> t) grid))) \<noteq> []"
    "last (map fst (filter snd (zip lp (map (\<lambda>x. x \<le> t) grid)))) = lp ! n"
    by blast
  have "loadpoint_lookup system t = Inr (lp ! n)"
    using assms(1-3) n(4,5)
    by (simp add: loadpoint_lookup_def getattr_def boolean_index_def last_item_def)
  with n(1-3) show ?thesis by blast
qed

lemma v_contribution_loop_domain_error:
  assumes "vref system = Some vr"
    and "map b rs = map Some bs" and "map Dc rs = map Some ds"
    and "map state rs = map Some ths"
    and "\<forall>j<length rs. ds ! j \<noteq> 0"
    and "\<exists>j<length rs. vr * ths ! j / ds ! j \<le> 0"
  shows "v_contribution_loop rs system acc = Inl ValueError"
  using assms(2-)
proof (induction rs arbitrary: bs ds ths acc)
  case Nil
  then show ?case by simp
next
  case (Cons r rs)
  from Cons.prems(1-3) obtain b0 bs' d0 ds' t0 ths' where
    eqs: "bs = b0 # bs'" "ds = d0 # ds'" "ths = t0 # ths'"
      "b r = Some b0" "Dc r = Some d0" "state r = Some t0"
      "map b rs = map Some bs'" "map Dc rs = map Some ds'" "map state rs = map Some ths'"
    by (auto simp: Cons_eq_map_conv)
  from Cons.prems(4) eqs have d0: "d0 \<noteq> 0" and nz: "\<forall>j<length rs. ds' ! j \<noteq> 0"
    by force+
  show ?case
  proof (cases "0 < vr * t0 / d0")
    case True
    then have "velocity_component r system = Inr (b0 * ln (vr * t0 / d0))"
      using eqs(4-6) assms(1) d0 by (simp add: velocity_component_def arith_defs)
    moreover from True Cons.prems(5) have "\<exists>j<length rs. vr * ths' ! j / ds' ! j \<le> 0"
      unfolding eqs(1-3) by (auto simp: Ex_less_Suc2)
    ultimately show ?thesis
      using Cons.IH [OF eqs(7-9) nz] by simp
  next
    case False
    then have "velocity_component r system = Inl ValueError"
      using eqs(4-6) assms(1) d0 by (simp add: velocity_component_def arith_defs)
    then show ?thesis by simp
  qed
qed

lemma integrationStep_cases:
  assumes rs: "state_relations system = rs" and w: "length w = length rs + 1"
    and m0: "mu0 system = Some m0" and aa: "a system = Some aa" "aa \<noteq> 0"
    and kk: "k system = Some kk" and vr: "vref system = Some vr"
    and bs: "map b rs = map Some bs" and ds: "map Dc rs = map Some ds"
    and nz: "\<forall>i<length rs. ds ! i \<noteq> 0"
    and v': "v' = vr * exp ((w ! 0 - m0
               - (\<Sum>i<length rs. bs ! i * ln (vr * w ! (i + 1) / ds ! i))) / aa)"
  shows "integrationStep self w t system =
           (if \<exists>i<length rs. vr * w ! (i + 1) / ds ! i \<le> 0 then Inl ValueError
            else case loadpoint_lookup system t of
                   Inl e \<Rightarrow> Inl e
                 | Inr loadpoint_vel \<Rightarrow>
                     Inr (kk * (loadpoint_vel - v')
                            # map (\<lambda>i. case relation (rs ! i) of
                                  DieterichState \<Rightarrow> 1 - v' * w ! (i + 1) / ds ! i
                                | RuinaState \<Rightarrow>
                                    - (v' * w ! (i + 1) / ds ! i) * ln (v' * w ! (i + 1) / ds ! i)
                                | PrzState \<Rightarrow> 1 - (v' * w ! (i + 1) / (2 * ds ! i)) ^ 2)
                                [0..<length rs],
                          system\<lparr>mu := Some (w ! 0), v := Some v',
                            state_relations :=
                              map (\<lambda>i. (rs ! i)\<lparr>state := Some (w ! (i + 1))\<rparr>) [0..<length rs]\<rparr>))"
proof -
  define rs1 where "rs1 = map (\<lambda>i. (rs ! i)\<lparr>state := Some (w ! (i + 1))\<rparr>) [0..<length rs]"
  define ths where "ths = tl w"
  define system1 where "system1 = system\<lparr>mu := Some (w ! 0), state_relations := rs1\<rparr>"
  define system2 where "system2 = system1\<lparr>v := Some v'\<rparr>"
  have ths: "length ths = length rs" "\<And>i. i < length rs \<Longrightarrow> ths ! i = w ! (i + 1)"
    using w by (simp_all add: ths_def nth_tl)
  have wne: "w \<noteq> []" using w by auto
  have assign: "assign_states rs w 0 = Inr rs1"
    using assign_states_nth [of 0 rs w] w by (simp add: rs1_def)
  have len1: "length rs1 = length rs" by (simp add: rs1_def)
  have "map b rs1 = map b rs" and "map Dc rs1 = map Dc rs"
    by (auto simp: rs1_def intro!: nth_equalityI)
  then have b1: "map b rs1 = map Some bs" and d1: "map Dc rs1 = map Some ds"
    using bs ds by simp_all
  have s1: "map state rs1 = map Some ths"
    using ths by (auto simp: rs1_def intro!: nth_equalityI)
  have rel1: "\<And>i. i < length rs \<Longrightarrow> relation (rs1 ! i) = relation (rs ! i)"
    by (simp add: rs1_def)
  have vr1: "vref system1 = Some vr" by (simp add: system1_def vr)
  show ?thesis
  proof (cases "\<exists>i<length rs. vr * w ! (i + 1) / ds ! i \<le> 0")
    case True
    then have "\<exists>j<length rs1. vr * ths ! j / ds ! j \<le> 0"
      using ths len1 by auto
    moreover have "\<forall>j<length rs1. ds ! j \<noteq> 0" using nz len1 by simp
    ultimately have "v_contribution_loop rs1 system1 0 = Inl ValueError"
      using v_contribution_loop_domain_error [OF vr1 b1 d1 s1] by blast
    then have "velocity_evolution system1 = Inl ValueError"
      by (simp add: velocity_evolution_def system1_def)
    then show ?thesis
      using True wne rs assign by (simp add: integrationStep_def system1_def)
  next
    case False
    then have dom1: "\<forall>j<length rs1. 0 < vr * ths ! j / ds ! j"
      using ths len1 by (auto simp: not_le)
    have "v_contribution_loop rs1 system1 0 =
          Inr (0 + (\<Sum>j<length rs1. bs ! j * ln (vr * ths ! j / ds ! j)))"
      by (rule v_contribution_loop_sum [OF vr1 b1 d1 s1 dom1])
    also have "(\<Sum>j<length rs1. bs ! j * ln (vr * ths ! j / ds ! j)) =
               (\<Sum>i<length rs. bs ! i * ln (vr * w ! (i + 1) / ds ! i))"
      using ths len1 by simp
    finally have vel: "velocity_evolution system1 = Inr system2"
      using m0 aa vr v'
      by (simp add: velocity_evolution_def system1_def system2_def arith_defs)
    have look2: "loadpoint_lookup system2 t = loadpoint_lookup system t"
      by (simp add: loadpoint_lookup_def system2_def system1_def)
    have fric: "friction_evolution system2 lv = Inr (kk * (lv - v'))" for lv
      using kk by (simp add: friction_evolution_def system2_def system1_def arith_defs)
    have dom2: "\<forall>j<length rs1. 0 < v' * ths ! j / ds ! j"
    proof (intro allI impI)
      fix j assume "j < length rs1"
      with dom1 have pos: "0 < vr * ths ! j / ds ! j" by blast
      define E where "E = exp ((w ! 0 - m0
               - (\<Sum>i<length rs. bs ! i * ln (vr * w ! (i + 1) / ds ! i))) / aa)"
      have "0 < E" by (simp add: E_def)
      then have "0 < E * (vr * ths ! j / ds ! j)" using pos by (rule mult_pos_pos)
      moreover have "v' * ths ! j / ds ! j = E * (vr * ths ! j / ds ! j)"
        by (simp add: v' E_def)
      ultimately show "0 < v' * ths ! j / ds ! j" by (simp only:)
    qed
    have "evolve_loop rs1 system2 =
           (Inr (map (\<lambda>j. case relation (rs1 ! j) of
                     DieterichState \<Rightarrow> 1 - v' * ths ! j / ds ! j
                   | RuinaState \<Rightarrow> - (v' * ths ! j / ds ! j) * ln (v' * ths ! j / ds ! j)
                   | PrzState \<Rightarrow> 1 - (v' * ths ! j / (2 * ds ! j)) ^ 2) [0..<length rs1]), rs1)"
      by (rule evolve_loop_rates [OF _ d1 s1 dom2]) (simp add: system2_def)
    also have "map (\<lambda>j. case relation (rs1 ! j) of
                     DieterichState \<Rightarrow> 1 - v' * ths ! j / ds ! j
                   | RuinaState \<Rightarrow> - (v' * ths ! j / ds ! j) * ln (v' * ths ! j / ds ! j)
                   | PrzState \<Rightarrow> 1 - (v' * ths ! j / (2 * ds ! j)) ^ 2) [0..<length rs1]
      = map (\<lambda>i. case relation (rs ! i) of
                        DieterichState \<Rightarrow> 1 - v' * w ! (i + 1) / ds ! i
                      | RuinaState \<Rightarrow>
                          - (v' * w ! (i + 1) / ds ! i) * ln (v' * w ! (i + 1) / ds ! i)
                      | PrzState \<Rightarrow> 1 - (v' * w ! (i + 1) / (2 * ds ! i)) ^ 2)
                      [0..<length rs]"
      using ths rel1 len1 by (simp cong: relation.case_cong)
    finally have evo: "evolve_loop rs1 system2 =
       (Inr (map (\<lambda>i. case relation (rs ! i) of
                        DieterichState \<Rightarrow> 1 - v' * w ! (i + 1) / ds ! i
                      | RuinaState \<Rightarrow>
                          - (v' * w ! (i + 1) / ds ! i) * ln (v' * w ! (i + 1) / ds ! i)
                      | PrzState \<Rightarrow> 1 - (v' * w ! (i + 1) / (2 * ds ! i)) ^ 2)
                      [0..<length rs]), rs1)" .
    have rs2: "state_relations system2 = rs1"
      by (simp add: system2_def system1_def)
    have sys: "system2\<lparr>state_relations := rs1\<rparr> =
       system\<lparr>mu := Some (w ! 0), v := Some v', state_relations := rs1\<rparr>"
      by (simp add: system2_def system1_def)
    show ?thesis
      unfolding if_not_P [OF False]
    proof (cases "loadpoint_lookup system t")
      case (Inl e)
      then show "integrationStep self w t system =
           (case loadpoint_lookup system t of
                   Inl e \<Rightarrow> Inl e
                 | Inr loadpoint_vel \<Rightarrow>
                     Inr (kk * (loadpoint_vel - v')
                            # map (\<lambda>i. case relation (rs ! i) of
                                  DieterichState \<Rightarrow> 1 - v' * w ! (i + 1) / ds ! i
                                | RuinaState \<Rightarrow>
                                    - (v' * w ! (i + 1) / ds ! i) * ln (v' * w ! (i + 1) / ds ! i)
                                | PrzState \<Rightarrow> 1 - (v' * w ! (i + 1) / (2 * ds ! i)) ^ 2)
                                [0..<length rs],
                          system\<lparr>mu := Some (w ! 0), v := Some v',
                            state_relations :=
                              map (\<lambda>i. (rs ! i)\<lparr>state := Some (w ! (i + 1))\<rparr>) [0..<length rs]\<rparr>))"
        using wne rs assign vel [unfolded system1_def] look2
        by (simp add: integrationStep_def)
    next
      case (Inr lv)
      then show "integrationStep self w t system =
           (case loadpoint_lookup system t of
                   Inl e \<Rightarrow> Inl e
                 | Inr loadpoint_vel \<Rightarrow>
                     Inr (kk * (loadpoint_vel - v')
                            # map (\<lambda>i. case relation (rs ! i) of
                                  DieterichState \<Rightarrow> 1 - v' * w ! (i + 1) / ds ! i
                                | RuinaState \<Rightarrow>
                                    - (v' * w ! (i + 1) / ds ! i) * ln (v' * w ! (i + 1) / ds ! i)
                                | PrzState \<Rightarrow> 1 - (v' * w ! (i + 1) / (2 * ds ! i)) ^ 2)
                                [0..<length rs],
                          system\<lparr>mu := Some (w ! 0), v := Some v',
                            state_relations :=
                              map (\<lambda>i. (rs ! i)\<lparr>state := Some (w ! (i + 1))\<rparr>) [0..<length rs]\<rparr>))"
        using wne rs assign vel [unfolded system1_def] look2 fric evo rs2 sys
        by (simp add: integrationStep_def rs1_def)
    qed
  qed
qed



text \<open>
  C1. On a system with \<open>m\<close> state relations whose parameters are set, a state vector
  \<open>w\<close> of length \<open>m + 1\<close> and a time \<open>t\<close> with a grid time at or before it, the step
  assigns \<open>mu = w[0]\<close> and \<open>state = w[i+1]\<close> to the \<open>i\<close>-th relation in list order,
  recomputes \<open>v = vref * exp ((mu - mu0 - (\<Sum>i. b\<^sub>i * ln (vref * \<theta>\<^sub>i / Dc\<^sub>i))) / a)\<close> and
  returns \<open>k * (loadpoint_vel - v)\<close> followed by the rate of every relation at the new
  \<open>v\<close>, in the order of \<open>w\<close>. The loadpoint velocity is the one at the last grid index
  whose time is at most \<open>t\<close>. Here \<open>a\<close> and every \<open>Dc\<close> are not zero. Where some
  \<open>vref * \<theta>\<^sub>i / Dc\<^sub>i\<close> is not positive its logarithm has no value, and the step raises
  the \<^verbatim>\<open>ValueError\<close> of \<^verbatim>\<open>math.log\<close>.
\<close>

theorem integrationStep_computes:
  assumes rs: "state_relations system = rs" and w: "length w = length rs + 1"
    and m0: "mu0 system = Some m0" and aa: "a system = Some aa" "aa \<noteq> 0"
    and kk: "k system = Some kk" and vr: "vref system = Some vr"
    and bs: "map b rs = map Some bs" and ds: "map Dc rs = map Some ds"
    and nz: "\<forall>i<length rs. ds ! i \<noteq> 0"
    and grid: "ExternalSystem.model_time system = Some grid"
    and lp: "ExternalSystem.loadpoint_velocity system = Some lp"
    and len: "length lp = length grid" and ex: "\<exists>g\<in>set grid. g \<le> t"
    and v': "v' = vr * exp ((w ! 0 - m0
               - (\<Sum>i<length rs. bs ! i * ln (vr * w ! (i + 1) / ds ! i))) / aa)"
  shows "\<exists>n<length grid. grid ! n \<le> t \<and> (\<forall>j<length grid. grid ! j \<le> t \<longrightarrow> j \<le> n)
       \<and> integrationStep self w t system =
           (if \<exists>i<length rs. vr * w ! (i + 1) / ds ! i \<le> 0 then Inl ValueError
            else Inr (kk * (lp ! n - v')
                        # map (\<lambda>i. case relation (rs ! i) of
                              DieterichState \<Rightarrow> 1 - v' * w ! (i + 1) / ds ! i
                            | RuinaState \<Rightarrow>
                                - (v' * w ! (i + 1) / ds ! i) * ln (v' * w ! (i + 1) / ds ! i)
                            | PrzState \<Rightarrow> 1 - (v' * w ! (i + 1) / (2 * ds ! i)) ^ 2)
                            [0..<length rs],
                      system\<lparr>mu := Some (w ! 0), v := Some v',
                        state_relations :=
                          map (\<lambda>i. (rs ! i)\<lparr>state := Some (w ! (i + 1))\<rparr>) [0..<length rs]\<rparr>))"
proof -
  from loadpoint_lookup_index [OF grid lp len ex] obtain n where
    n: "n < length grid" "grid ! n \<le> t" "\<forall>j<length grid. grid ! j \<le> t \<longrightarrow> j \<le> n"
    and look: "loadpoint_lookup system t = Inr (lp ! n)"
    by blast
  have "integrationStep self w t system =
           (if \<exists>i<length rs. vr * w ! (i + 1) / ds ! i \<le> 0 then Inl ValueError
            else Inr (kk * (lp ! n - v')
                        # map (\<lambda>i. case relation (rs ! i) of
                              DieterichState \<Rightarrow> 1 - v' * w ! (i + 1) / ds ! i
                            | RuinaState \<Rightarrow>
                                - (v' * w ! (i + 1) / ds ! i) * ln (v' * w ! (i + 1) / ds ! i)
                            | PrzState \<Rightarrow> 1 - (v' * w ! (i + 1) / (2 * ds ! i)) ^ 2)
                            [0..<length rs],
                      system\<lparr>mu := Some (w ! 0), v := Some v',
                        state_relations :=
                          map (\<lambda>i. (rs ! i)\<lparr>state := Some (w ! (i + 1))\<rparr>) [0..<length rs]\<rparr>))"
    unfolding integrationStep_cases [OF rs w m0 aa kk vr bs ds nz v'] look
    by (simp only: sum.case)
  with n show ?thesis by blast
qed

theorem integrationStep_computes_witness:
  "state_relations example_system = [state1, state2]
   \<and> length [3 / 5, 10, 5 :: real] = length [state1, state2] + 1
   \<and> mu0 example_system = Some (3 / 5)
   \<and> a example_system = Some (1 / 200) \<and> (1 / 200 :: real) \<noteq> 0
   \<and> k example_system = Some (1 / 1000) \<and> vref example_system = Some 1
   \<and> map b [state1, state2] = map Some [1 / 100, 1 / 1000]
   \<and> map Dc [state1, state2] = map Some [10, 5]
   \<and> [10, 5 :: real] ! 0 \<noteq> 0 \<and> [10, 5 :: real] ! 1 \<noteq> 0
   \<and> ExternalSystem.model_time example_system = Some [0, 1, 2, 3]
   \<and> ExternalSystem.loadpoint_velocity example_system = Some [1, 1, 10, 10]
   \<and> length [1, 1, 10, 10 :: real] = length [0, 1, 2, 3 :: real]
   \<and> (\<exists>g\<in>set [0, 1, 2, 3 :: real]. g \<le> 5 / 2)
   \<and> integrationStep \<lparr>model_time = None, loadpoint_velocity = [], results = 0\<rparr>
         [3 / 5, 10, 5] (5 / 2) example_system =
         Inr ([9 / 1000, 0, 0],
              example_system\<lparr>mu := Some (3 / 5), v := Some 1,
                state_relations := [state1\<lparr>state := Some 10\<rparr>, state2\<lparr>state := Some 5\<rparr>]\<rparr>)
   \<and> integrationStep \<lparr>model_time = None, loadpoint_velocity = [], results = 0\<rparr>
         [3 / 5, 10, - 5] (5 / 2) example_system = Inl ValueError"
  (is "?h1 \<and> ?h2 \<and> ?h3 \<and> ?h4 \<and> ?h5 \<and> ?h6 \<and> ?h7 \<and> ?h8 \<and> ?h9 \<and> ?h10a \<and> ?h10b \<and> ?h11
        \<and> ?h12 \<and> ?h13 \<and> ?h14 \<and> ?c1 \<and> ?c2")
proof -
  let ?self = "\<lparr>model_time = None, loadpoint_velocity = [], results = 0\<rparr>"
  have h1: ?h1 and h3: ?h3 and h4: ?h4 and h6: ?h6 and h7: ?h7 and h11: ?h11 and h12: ?h12
    by (simp_all add: example_system_def ExternalSystem_init_def)
  have h2: ?h2 and h5: ?h5 and h13: ?h13 and h14: ?h14
    and h2': "length [3 / 5, 10, - 5 :: real] = length [state1, state2] + 1"
    by simp_all
  have h8: ?h8 and h9: ?h9
    by (simp_all add: state1_def state2_def)
  have h10a: ?h10a and h10b: ?h10b
    by simp_all
  have h10: "\<forall>i<length [state1, state2]. [10, 5 :: real] ! i \<noteq> 0"
    by (simp add: less_Suc_eq)
  have two: "{..<length [state1, state2]} = {0, 1}"
    by auto
  have upt2: "[0..<length [state1, state2]] = [0, 1]"
    by (simp add: upt_rec)
  have v1: "1 * exp ((([3 / 5, 10, 5 :: real] ! 0 - 3 / 5
           - (\<Sum>i<length [state1, state2].
                [1 / 100, 1 / 1000] ! i * ln (1 * [3 / 5, 10, 5] ! (i + 1) / [10, 5] ! i))) / (1 / 200))) = (1::real)"
    unfolding two by simp
  have ok: "\<not> (\<exists>i<length [state1, state2]. 1 * [3 / 5, 10, 5 :: real] ! (i + 1) / [10, 5] ! i \<le> 0)"
    by (simp add: Ex_less_Suc2)
  have bad: "\<exists>i<length [state1, state2]. 1 * [3 / 5, 10, - 5 :: real] ! (i + 1) / [10, 5] ! i \<le> 0"
    by (intro exI [of _ 1]) simp
  from integrationStep_computes [where self = ?self,
      OF h1 h2 h3 h4 h5 h6 h7 h8 h9 h10 h11 h12 h13 h14 v1 [symmetric]]
  obtain n where n: "n < length [0, 1, 2, 3 :: real]" "[0, 1, 2, 3 :: real] ! n \<le> 5 / 2"
      "\<forall>j<length [0, 1, 2, 3 :: real]. [0, 1, 2, 3 :: real] ! j \<le> 5 / 2 \<longrightarrow> j \<le> n"
    and step: "integrationStep ?self [3 / 5, 10, 5] (5 / 2) example_system =
           (if \<exists>i<length [state1, state2]. 1 * [3 / 5, 10, 5 :: real] ! (i + 1) / [10, 5] ! i \<le> 0
            then Inl ValueError
            else Inr (1 / 1000 * ([1, 1, 10, 10] ! n - 1)
                  # map (\<lambda>i. case relation ([state1, state2] ! i) of
                        DieterichState \<Rightarrow> 1 - 1 * [3 / 5, 10, 5] ! (i + 1) / [10, 5] ! i
                      | RuinaState \<Rightarrow>
                          - (1 * [3 / 5, 10, 5] ! (i + 1) / [10, 5] ! i)
                            * ln (1 * [3 / 5, 10, 5] ! (i + 1) / [10, 5] ! i)
                      | PrzState \<Rightarrow> 1 - (1 * [3 / 5, 10, 5] ! (i + 1) / (2 * [10, 5] ! i)) ^ 2)
                      [0..<length [state1, state2]],
                example_system\<lparr>mu := Some ([3 / 5, 10, 5] ! 0), v := Some 1,
                  state_relations :=
                    map (\<lambda>i. ([state1, state2] ! i)\<lparr>state := Some ([3 / 5, 10, 5] ! (i + 1))\<rparr>)
                      [0..<length [state1, state2]]\<rparr>))"
    by blast
  have "2 \<le> n" using n(3) [rule_format, of 2] by simp
  moreover have "n < 4" using n(1) by simp
  ultimately have "n = 2 \<or> n = 3" by arith
  then have lpn: "[1, 1, 10, 10 :: real] ! n = 10" by auto
  have c1: ?c1
    unfolding step if_not_P [OF ok] lpn upt2 by (simp add: state1_def state2_def)
  from integrationStep_computes [where self = ?self and w = "[3 / 5, 10, - 5]",
      OF h1 h2' h3 h4 h5 h6 h7 h8 h9 h10 h11 h12 h13 h14 refl]
  have c2: ?c2
    unfolding if_P [OF bad] by blast
  from c1 c2 h1 h2 h3 h4 h5 h6 h7 h8 h9 h10a h10b h11 h12 h13 h14 show ?thesis by blast
qed

text \<open>
  What a step reads and writes. The value of a step does not depend on the \<open>mu\<close>, the
  \<open>v\<close> and the states it finds, and a step changes nothing else. So the calls of the
  integrator, in whatever order, compute one function of \<open>w\<close> and \<open>t\<close>, and the
  parameters \<^verbatim>\<open>solve\<close> reads after the integration are those it had before.
\<close>

lemma assign_states_overwrites:
  "assign_states (map (\<lambda>r. r\<lparr>state := s r\<rparr>) rs) w i = assign_states rs w i"
  by (induction rs arbitrary: i) simp_all

lemma v_contribution_loop_reads:
  "vref system' = vref system \<Longrightarrow>
   v_contribution_loop rs system' acc = v_contribution_loop rs system acc"
  by (induction rs arbitrary: acc) (simp_all add: velocity_component_def)

lemma velocity_evolution_overwrites:
  "velocity_evolution (system\<lparr>v := y, mu := m, state_relations := rs\<rparr>) =
   velocity_evolution (system\<lparr>mu := m, state_relations := rs\<rparr>)"
  using v_contribution_loop_reads
    [of "system\<lparr>v := y, mu := m, state_relations := rs\<rparr>"
        "system\<lparr>mu := m, state_relations := rs\<rparr>" rs 0]
  by (cases "v_contribution_loop rs (system\<lparr>mu := m, state_relations := rs\<rparr>) 0")
    (auto simp: velocity_evolution_def arith_defs split: option.splits)

lemma func_scratch:
  "func self (system\<lparr>mu := x, v := y,
       state_relations := map (\<lambda>r. r\<lparr>state := s r\<rparr>) (state_relations system)\<rparr>) w t =
   func self system w t"
  by (simp add: func_def integrationStep_def assign_states_overwrites
      velocity_evolution_overwrites)

lemma evolve_state_object: "snd (evolve_state r system) = r"
  by (simp add: evolve_state_def steady_state_global_def)

lemma evolve_loop_objects: "snd (evolve_loop rs system) = rs"
proof (induction rs)
  case Nil
  then show ?case by simp
next
  case (Cons r rs)
  then show ?case
    using evolve_state_object [of r system]
    by (cases "evolve_state r system"; cases "evolve_loop rs system")
      (auto split: sum.splits)
qed

lemma assign_states_frame:
  "assign_states rs w i = Inr rs' \<Longrightarrow>
   map relation rs' = map relation rs \<and> map b rs' = map b rs \<and> map Dc rs' = map Dc rs"
proof (induction rs arbitrary: i rs')
  case Nil
  then show ?case by simp
next
  case (Cons r rs)
  then show ?case
    by (cases "assign_states rs w (i + 1)") (auto split: if_splits)
qed

lemma integrationStep_frame:
  assumes "integrationStep self w t system = Inr (res, system')"
  shows "mu0 system' = mu0 system \<and> a system' = a system \<and> k system' = k system
       \<and> vref system' = vref system
       \<and> ExternalSystem.model_time system' = ExternalSystem.model_time system
       \<and> ExternalSystem.loadpoint_velocity system' = ExternalSystem.loadpoint_velocity system
       \<and> map relation (state_relations system') = map relation (state_relations system)
       \<and> map b (state_relations system') = map b (state_relations system)
       \<and> map Dc (state_relations system') = map Dc (state_relations system)"
proof -
  from assms obtain rs where rs: "assign_states (state_relations system) w 0 = Inr rs"
    by (cases "assign_states (state_relations system) w 0")
      (auto simp: integrationStep_def split: if_splits)
  let ?sys1 = "system\<lparr>mu := Some (w ! 0), state_relations := rs\<rparr>"
  from assms rs obtain sys2 where vel: "velocity_evolution ?sys1 = Inr sys2"
    by (cases "velocity_evolution ?sys1") (auto simp: integrationStep_def split: if_splits)
  then obtain nv where sys2: "sys2 = ?sys1\<lparr>v := Some nv\<rparr>"
    by (cases "v_contribution_loop rs ?sys1 0")
      (auto simp: velocity_evolution_def arith_defs split: option.splits if_splits)
  from assms rs vel have "system' = sys2\<lparr>state_relations := snd (evolve_loop (state_relations sys2) sys2)\<rparr>"
    by (cases "loadpoint_lookup sys2 t") 
      (auto simp: integrationStep_def friction_evolution_def arith_defs
        split: if_splits sum.splits option.splits prod.splits)
  then have "system' = sys2" using sys2 by (simp add: evolve_loop_objects)
  then show ?thesis using sys2 assign_states_frame [OF rs] by simp
qed

subsection \<open>The results of solve\<close>


lemma steady_state_loop_values:
  assumes "vref system = Some vr" and "vr \<noteq> 0" and "map Dc rs = map Some ds"
  shows "steady_state_loop rs system =
           Inr (map (\<lambda>i. (rs ! i)\<lparr>state := Some (case relation (rs ! i) of
                   DieterichState \<Rightarrow> ds ! i / vr | RuinaState \<Rightarrow> ds ! i / vr
                 | PrzState \<Rightarrow> 2 * ds ! i / vr)\<rparr>) [0..<length rs])"
  using assms(3)
proof (induction rs arbitrary: ds)
  case Nil
  then show ?case by simp
next
  case (Cons r rs)
  from Cons.prems obtain d0 ds' where
    eqs: "ds = d0 # ds'" "Dc r = Some d0" "map Dc rs = map Some ds'"
    by (auto simp: Cons_eq_map_conv)
  have "set_steady_state r system =
          Inr (r\<lparr>state := Some (case relation r of
                   DieterichState \<Rightarrow> d0 / vr | RuinaState \<Rightarrow> d0 / vr
                 | PrzState \<Rightarrow> 2 * d0 / vr)\<rparr>)"
    using assms(1,2) eqs(2)
    by (simp add: set_steady_state_def arith_defs split: relation.splits)
  then show ?case
    using Cons.IH [OF eqs(3)] unfolding eqs(1)
    by (simp add: map_upt_Suc del: upt_Suc cong: relation.case_cong)
qed

lemma asarray_Some: "asarray (map Some xs) = Inr xs"
  by (induction xs) simp_all

lemma length_cumsum_from: "length (cumsum_from acc xs) = length xs"
  by (induction xs arbitrary: acc) simp_all

lemma cumsum_from_step:
  "j < length xs \<Longrightarrow> (acc # cumsum_from acc xs) ! Suc j = (acc # cumsum_from acc xs) ! j + xs ! j"
proof (induction xs arbitrary: acc j)
  case Nil
  then show ?case by simp
next
  case (Cons x xs)
  show ?case
  proof (cases j)
    case 0
    then show ?thesis by simp
  next
    case (Suc j')
    with Cons.prems have "j' < length xs" by simp
    from Cons.IH [OF this, of "acc + x"] Suc show ?thesis by simp
  qed
qed

lemma length_ediff1d: "length (ediff1d xs) = length xs - 1"
  by (induction xs rule: ediff1d.induct) simp_all

lemma ediff1d_nth: "Suc j < length xs \<Longrightarrow> ediff1d xs ! j = xs ! Suc j - xs ! j"
proof (induction xs arbitrary: j rule: ediff1d.induct)
  case (1 x y zs)
  then show ?case by (cases j) simp_all
qed simp_all

lemma displacement_of_steps:
  assumes "ExternalSystem.loadpoint_velocity system = Some lp"
    and "length lp = length grid" and "grid \<noteq> []"
  shows "\<exists>d. displacement_of system grid = Inr d \<and> length d = length grid \<and> d ! 0 = 0
           \<and> (\<forall>j. 1 \<le> j \<and> j < length grid \<longrightarrow>
                 d ! j = d ! (j - 1) + lp ! (j - 1) * (grid ! j - grid ! (j - 1)))"
proof -
  define steps where "steps = map2 (*) (butlast lp) (ediff1d grid)"
  have len: "length steps = length grid - 1"
    using assms(2) by (simp add: steps_def length_ediff1d)
  have nth: "steps ! j = lp ! j * (grid ! Suc j - grid ! j)" if "Suc j < length grid" for j
    using that assms(2) by (simp add: steps_def length_ediff1d ediff1d_nth nth_butlast)
  have d: "displacement_of system grid = Inr (0 # cumsum steps)"
    using assms(1,2)
    by (simp add: displacement_of_def getattr_def np_mul_def length_ediff1d steps_def)
  have "(0 # cumsum steps) ! j = (0 # cumsum steps) ! (j - 1) + lp ! (j - 1) * (grid ! j - grid ! (j - 1))"
    if "1 \<le> j" "j < length grid" for j
  proof -
    from that obtain j' where j': "j = Suc j'" by (cases j) auto
    with that have "j' < length steps" "Suc j' < length grid" using len by simp_all
    then show ?thesis
      using cumsum_from_step [of j' steps 0] nth [of j'] j' by (simp add: cumsum_def)
  qed
  moreover have "length (0 # cumsum steps) = length grid"
    using len assms(3) by (simp add: cumsum_def length_cumsum_from)
  ultimately show ?thesis using d by auto
qed


lemma velocity_contribution_loop_rows:
  assumes "vref system = Some vr"
    and "map b rs = map Some bs" and "map Dc rs = map Some ds"
    and "length acc = length sts"
  shows "velocity_contribution_loop rs i0 system sts acc =
           Inr (map (\<lambda>j. case acc ! j of
                      None \<Rightarrow> None
                    | Some x \<Rightarrow>
                        if \<forall>i<length rs. 0 < vr * sts ! j ! (i0 + i) / ds ! i
                        then Some (x + (\<Sum>i<length rs. bs ! i * ln (vr * sts ! j ! (i0 + i) / ds ! i)))
                        else None) [0..<length sts])"
  using assms(2-)
proof (induction rs arbitrary: i0 acc bs ds)
  case Nil
  then show ?case
    by (auto intro!: nth_equalityI split: option.splits)
next
  case (Cons r rs)
  from Cons.prems(1,2) obtain b0 bs' d0 ds' where
    eqs: "bs = b0 # bs'" "ds = d0 # ds'" "b r = Some b0" "Dc r = Some d0"
      "map b rs = map Some bs'" "map Dc rs = map Some ds'"
    by (auto simp: Cons_eq_map_conv)
  define c where "c = map (\<lambda>row. if 0 < vr * row ! i0 / d0
                                  then Some (b0 * ln (vr * row ! i0 / d0)) else None) sts"
  have c: "seq (np_scalar_mul (vref system) (map (\<lambda>row. Some (row ! i0)) sts)) (\<lambda>x.
           seq (np_div_scalar x (Dc r)) (\<lambda>y. np_scalar_mul (b r) (np_log y))) = Inr c"
    using assms(1) eqs(3,4)
    by (auto simp: np_scalar_mul_def np_div_scalar_def np_log_def c_def)
  have len: "length (np_add acc c) = length sts"
    using Cons.prems(3) by (simp add: np_add_def c_def)
  have step: "velocity_contribution_loop (r # rs) i0 system sts acc =
              velocity_contribution_loop rs (i0 + 1) system sts (np_add acc c)"
  proof -
    have "velocity_contribution_loop (r # rs) i0 system sts acc =
          seq (seq (np_scalar_mul (vref system) (map (\<lambda>row. Some (row ! i0)) sts)) (\<lambda>x.
               seq (np_div_scalar x (Dc r)) (\<lambda>y. np_scalar_mul (b r) (np_log y))))
              (\<lambda>c. velocity_contribution_loop rs (i0 + 1) system sts (np_add acc c))"
      using assms(1) eqs(3,4)
      by (simp add: np_scalar_mul_def np_div_scalar_def)
    then show ?thesis by (simp add: c)
  qed
  have acc': "np_add acc c ! j =
      (case acc ! j of None \<Rightarrow> None
       | Some x \<Rightarrow> if 0 < vr * sts ! j ! i0 / d0
                   then Some (x + b0 * ln (vr * sts ! j ! i0 / d0)) else None)"
    if "j < length sts" for j
    using that Cons.prems(3) by (simp add: np_add_def c_def split: option.splits)
  show ?case
    unfolding step Cons.IH [OF eqs(5,6) len] eqs(1,2)
    by (auto intro!: nth_equalityI simp: acc' All_less_Suc2 sum.lessThan_Suc_shift
        add.assoc split: option.splits simp del: sum.lessThan_Suc)
qed


lemma slider_velocity_of_rows:
  assumes "mu0 system = Some m0" and "a system = Some aa" and "aa \<noteq> 0"
    and "vref system = Some vr" and "length vc = length fr"
  shows "slider_velocity_of system fr vc =
           Inr (map (\<lambda>j. case vc ! j of
                      None \<Rightarrow> None
                    | Some c \<Rightarrow> Some (vr * exp ((fr ! j - m0 - c) / aa))) [0..<length fr])"
  using assms
  by (auto simp: slider_velocity_of_def np_sub_scalar_def np_div_scalar_def np_scalar_mul_def
      np_sub_def np_exp_def intro!: nth_equalityI split: option.splits)

lemma results_assigned:
  "(r::results)\<lparr>friction := fr, states := sts, time := grid, slider_velocity := sv,
      displacement := d\<rparr> =
   \<lparr>time = grid, displacement = d, slider_velocity = sv, friction = fr, states = sts\<rparr>"
  by (cases r) simp

lemma solve_result:
  assumes rs: "state_relations system = rs"
    and m0: "mu0 system = Some m0" and aa: "a system = Some aa" "aa \<noteq> 0"
    and vr: "vref system = Some vr" "vr \<noteq> 0"
    and bs: "map b rs = map Some bs" and ds: "map Dc rs = map Some ds"
    and grid: "ExternalSystem.model_time system = Some grid" "grid \<noteq> []"
    and lp: "ExternalSystem.loadpoint_velocity system = Some lp" "length lp = length grid"
    and th0: "th0 = map (\<lambda>i. case relation (rs ! i) of
                 DieterichState \<Rightarrow> ds ! i / vr | RuinaState \<Rightarrow> ds ! i / vr
               | PrzState \<Rightarrow> 2 * ds ! i / vr) [0..<length rs]"
    and rs0: "rs0 = map (\<lambda>i. (rs ! i)\<lparr>state := Some (th0 ! i)\<rparr>) [0..<length rs]"
    and ode: "odeint (func self (system\<lparr>state_relations := rs0\<rparr>)) (m0 # th0) grid = Inr wsol"
    and shape: "length wsol = length grid" "\<forall>row\<in>set wsol. length row = length rs + 1"
    and fr: "fr = map (\<lambda>row. row ! 0) wsol" and sts: "sts = map tl wsol"
  shows "\<exists>sv d.
           solve odeint self system store =
             (Inr (results self),
              store(results self :=
                \<lparr>time = Some grid, displacement = Some d, slider_velocity = Some sv,
                 friction = Some fr, states = Some sts\<rparr>))
         \<and> length sv = length grid
         \<and> (\<forall>j<length grid. (\<forall>i<length rs. 0 < vr * sts ! j ! i / ds ! i) \<longrightarrow>
               sv ! j = Some (vr * exp ((fr ! j - m0
                          - (\<Sum>i<length rs. bs ! i * ln (vr * sts ! j ! i / ds ! i))) / aa)))
         \<and> length d = length grid \<and> d ! 0 = 0
         \<and> (\<forall>j. 1 \<le> j \<and> j < length grid \<longrightarrow>
               d ! j = d ! (j - 1) + lp ! (j - 1) * (grid ! j - grid ! (j - 1)))"
proof -
  have steady: "steady_state_loop rs system = Inr rs0"
    using steady_state_loop_values [OF vr ds] unfolding rs0 th0
    by (simp cong: relation.case_cong)
  have lth0: "length th0 = length rs" by (simp add: th0)
  have st0: "map state rs0 = map Some th0"
    by (rule nth_equalityI) (simp_all add: rs0 lth0)
  have "map b rs0 = map b rs" and "map Dc rs0 = map Dc rs"
    by (auto simp: rs0 intro!: nth_equalityI)
  then have b0: "map b rs0 = map Some bs" and d0: "map Dc rs0 = map Some ds"
    using bs ds by simp_all
  have len0: "length rs0 = length rs" by (simp add: rs0)
  have arr: "asarray (mu0 system # map state rs0) = Inr (m0 # th0)"
    using asarray_Some [of "m0 # th0"] by (simp add: m0 st0)
  define vc where "vc = map (\<lambda>j.
       if \<forall>i<length rs. 0 < vr * sts ! j ! i / ds ! i
       then Some (\<Sum>i<length rs. bs ! i * ln (vr * sts ! j ! i / ds ! i))
       else None) [0..<length sts]"
  have "velocity_contribution_loop rs0 0 system sts (map (\<lambda>_. Some 0) wsol) =
           Inr (map (\<lambda>j. case map (\<lambda>_. Some 0) wsol ! j of
                      None \<Rightarrow> None
                    | Some x \<Rightarrow>
                        if \<forall>i<length rs0. 0 < vr * sts ! j ! (0 + i) / ds ! i
                        then Some (x + (\<Sum>i<length rs0. bs ! i * ln (vr * sts ! j ! (0 + i) / ds ! i)))
                        else None) [0..<length sts])"
    by (rule velocity_contribution_loop_rows [OF vr(1) b0 d0]) (simp add: sts)
  also have "map (\<lambda>j. case map (\<lambda>_. Some 0) wsol ! j of
                      None \<Rightarrow> None
                    | Some x \<Rightarrow>
                        if \<forall>i<length rs0. 0 < vr * sts ! j ! (0 + i) / ds ! i
                        then Some (x + (\<Sum>i<length rs0. bs ! i * ln (vr * sts ! j ! (0 + i) / ds ! i)))
                        else None) [0..<length sts] = vc"
    unfolding vc_def by (rule nth_equalityI) (simp_all add: len0 sts)
  finally have loop: "velocity_contribution_loop rs0 0 system sts (map (\<lambda>_. Some 0) wsol) = Inr vc" .
  have lenvc: "length vc = length fr" by (simp add: vc_def fr sts)
  define sv where "sv = map (\<lambda>j. case vc ! j of
                      None \<Rightarrow> None
                    | Some c \<Rightarrow> Some (vr * exp ((fr ! j - m0 - c) / aa))) [0..<length fr]"
  have slider: "slider_velocity_of system fr vc = Inr sv"
    unfolding sv_def by (rule slider_velocity_of_rows [OF m0 aa vr(1) lenvc])
  have lensv: "length sv = length grid" by (simp add: sv_def fr shape(1))
  have svj: "sv ! j = Some (vr * exp ((fr ! j - m0
                          - (\<Sum>i<length rs. bs ! i * ln (vr * sts ! j ! i / ds ! i))) / aa))"
    if "j < length grid" "\<forall>i<length rs. 0 < vr * sts ! j ! i / ds ! i" for j
    using that by (simp add: sv_def vc_def fr sts shape(1))
  from displacement_of_steps [OF lp grid(2)] obtain d where
    d: "displacement_of system grid = Inr d" "length d = length grid" "d ! 0 = 0"
      "\<forall>j. 1 \<le> j \<and> j < length grid \<longrightarrow>
                 d ! j = d ! (j - 1) + lp ! (j - 1) * (grid ! j - grid ! (j - 1))"
    by blast
  have "solve odeint self system store =
             (Inr (results self),
              store(results self :=
                \<lparr>time = Some grid, displacement = Some d, slider_velocity = Some sv,
                 friction = Some fr, states = Some sts\<rparr>))"
    using rs steady grid(1) arr ode loop slider d(1)
    by (simp add: solve_def readyCheck_def getattr_def Let_def fr [symmetric] sts [symmetric]
        results_assigned)
  with lensv svj d(2-4) show ?thesis by blast
qed


lemmas step_defs = func_def integrationStep_def velocity_evolution_def velocity_component_def
  friction_evolution_def loadpoint_lookup_def boolean_index_def last_item_def evolve_state_def
  rate_def arith_defs

lemma example_euler:
  "euler (func \<lparr>model_time = None, loadpoint_velocity = [], results = 0\<rparr>
            (example_system\<lparr>state_relations :=
               [state1\<lparr>state := Some 10\<rparr>, state2\<lparr>state := Some 5\<rparr>]\<rparr>))
     [3 / 5, 10, 5] [0, 1, 2, 3] =
   Inr [[3 / 5, 10, 5], [3 / 5, 10, 5], [3 / 5, 10, 5], [609 / 1000, 10, 5]]"
  by (simp add: step_defs example_system_def ExternalSystem_init_def state1_def state2_def)

text \<open>
  C6. When the integration yields the matrix \<open>wsol\<close> with one row of length \<open>m + 1\<close> for
  each of the \<open>N\<close> grid times, \<open>solve\<close> returns its results object with
  \<open>friction = wsol[:, 0]\<close>, \<open>states = wsol[:, 1:]\<close> and \<open>time\<close> the grid; with
  \<open>slider_velocity[j] = vref * exp ((friction[j] - mu0
  - (\<Sum>i. b\<^sub>i * ln (vref * states[j, i] / Dc\<^sub>i))) / a)\<close> computed from the solved rows
  (wherever the logarithms have a value), not from the \<open>v\<close> the steps left behind; and
  with \<open>displacement[0] = 0\<close> and \<open>displacement[j] = displacement[j-1]
  + loadpoint_velocity[j-1] * (time[j] - time[j-1])\<close> for \<open>1 \<le> j < N\<close>, on the time
  differences of the grid as they are.
\<close>

theorem solve_reconstructs:
  assumes rs: "state_relations system = rs"
    and m0: "mu0 system = Some m0" and aa: "a system = Some aa" "aa \<noteq> 0"
    and vr: "vref system = Some vr" "vr \<noteq> 0"
    and bs: "map b rs = map Some bs" and ds: "map Dc rs = map Some ds"
    and grid: "ExternalSystem.model_time system = Some grid" "grid \<noteq> []"
    and lp: "ExternalSystem.loadpoint_velocity system = Some lp" "length lp = length grid"
    and th0: "th0 = map (\<lambda>i. case relation (rs ! i) of
                 DieterichState \<Rightarrow> ds ! i / vr | RuinaState \<Rightarrow> ds ! i / vr
               | PrzState \<Rightarrow> 2 * ds ! i / vr) [0..<length rs]"
    and rs0: "rs0 = map (\<lambda>i. (rs ! i)\<lparr>state := Some (th0 ! i)\<rparr>) [0..<length rs]"
    and ode: "odeint (func self (system\<lparr>state_relations := rs0\<rparr>)) (m0 # th0) grid = Inr wsol"
    and shape: "length wsol = length grid" "\<forall>row\<in>set wsol. length row = length rs + 1"
    and fr: "fr = map (\<lambda>row. row ! 0) wsol" and sts: "sts = map tl wsol"
  shows "\<exists>sv d.
           solve odeint self system store =
             (Inr (results self),
              store(results self :=
                \<lparr>time = Some grid, displacement = Some d, slider_velocity = Some sv,
                 friction = Some fr, states = Some sts\<rparr>))
         \<and> length sv = length grid
         \<and> (\<forall>j<length grid. (\<forall>i<length rs. 0 < vr * sts ! j ! i / ds ! i) \<longrightarrow>
               sv ! j = Some (vr * exp ((fr ! j - m0
                          - (\<Sum>i<length rs. bs ! i * ln (vr * sts ! j ! i / ds ! i))) / aa)))
         \<and> length d = length grid \<and> d ! 0 = 0
         \<and> (\<forall>j. 1 \<le> j \<and> j < length grid \<longrightarrow>
               d ! j = d ! (j - 1) + lp ! (j - 1) * (grid ! j - grid ! (j - 1)))"
  using assms by (rule solve_result)

theorem solve_reconstructs_witness:
  "state_relations example_system = [state1, state2]
   \<and> mu0 example_system = Some (3 / 5)
   \<and> a example_system = Some (1 / 200) \<and> (1 / 200 :: real) \<noteq> 0
   \<and> vref example_system = Some 1 \<and> (1 :: real) \<noteq> 0
   \<and> map b [state1, state2] = map Some [1 / 100, 1 / 1000]
   \<and> map Dc [state1, state2] = map Some [10, 5]
   \<and> ExternalSystem.model_time example_system = Some [0, 1, 2, 3]
   \<and> [0, 1, 2, 3 :: real] \<noteq> []
   \<and> ExternalSystem.loadpoint_velocity example_system = Some [1, 1, 10, 10]
   \<and> length [1, 1, 10, 10 :: real] = length [0, 1, 2, 3 :: real]
   \<and> euler (func \<lparr>model_time = None, loadpoint_velocity = [], results = 0\<rparr>
               (example_system\<lparr>state_relations :=
                  [state1\<lparr>state := Some 10\<rparr>, state2\<lparr>state := Some 5\<rparr>]\<rparr>))
         [3 / 5, 10, 5] [0, 1, 2, 3] =
       Inr [[3 / 5, 10, 5], [3 / 5, 10, 5], [3 / 5, 10, 5], [609 / 1000, 10, 5]]
   \<and> (\<exists>sv d.
         solve euler \<lparr>model_time = None, loadpoint_velocity = [], results = 0\<rparr> example_system
           (\<lambda>_. no_results) =
           (Inr 0,
            (\<lambda>_. no_results)(0 :=
              \<lparr>time = Some [0, 1, 2, 3], displacement = Some d, slider_velocity = Some sv,
               friction = Some [3 / 5, 3 / 5, 3 / 5, 609 / 1000],
               states = Some [[10, 5], [10, 5], [10, 5], [10, 5]]\<rparr>))
         \<and> sv = [Some 1, Some 1, Some 1, Some (exp (9 / 5))]
         \<and> d = [0, 1, 2, 12])"
  (is "?h1 \<and> ?h2 \<and> ?h3 \<and> ?h4 \<and> ?h5 \<and> ?h6 \<and> ?h7 \<and> ?h8 \<and> ?h9 \<and> ?h10 \<and> ?h11 \<and> ?h12
        \<and> ?h13 \<and> ?c")
proof -
  let ?self = "\<lparr>model_time = None, loadpoint_velocity = [], results = 0\<rparr>"
  let ?wsol = "[[3 / 5, 10, 5], [3 / 5, 10, 5], [3 / 5, 10, 5], [609 / 1000, 10, 5 :: real]]"
  have h1: ?h1 and h2: ?h2 and h3: ?h3 and h5: ?h5 and h9: ?h9 and h11: ?h11
    by (simp_all add: example_system_def ExternalSystem_init_def)
  have h4: ?h4 and h6: ?h6 and h10: ?h10 and h12: ?h12
    by simp_all
  have h7: ?h7 and h8: ?h8
    by (simp_all add: state1_def state2_def)
  have h13: ?h13
    by (rule example_euler)
  have upt2: "[0..<length [state1, state2]] = [0, 1]"
    by (simp add: upt_rec)
  have th0: "[10, 5 :: real] = map (\<lambda>i. case relation ([state1, state2] ! i) of
                 DieterichState \<Rightarrow> [10, 5] ! i / 1 | RuinaState \<Rightarrow> [10, 5] ! i / 1
               | PrzState \<Rightarrow> 2 * [10, 5] ! i / 1) [0..<length [state1, state2]]"
    unfolding upt2 by (simp add: state1_def state2_def)
  have rs0: "[state1\<lparr>state := Some 10\<rparr>, state2\<lparr>state := Some 5\<rparr>] =
             map (\<lambda>i. ([state1, state2] ! i)\<lparr>state := Some ([10, 5] ! i)\<rparr>)
               [0..<length [state1, state2]]"
    unfolding upt2 by simp
  have shape: "length ?wsol = length [0, 1, 2, 3 :: real]"
    "\<forall>row\<in>set ?wsol. length row = length [state1, state2] + 1"
    by simp_all
  have fr: "[3 / 5, 3 / 5, 3 / 5, 609 / 1000 :: real] = map (\<lambda>row. row ! 0) ?wsol"
    and sts: "[[10, 5], [10, 5], [10, 5], [10, 5 :: real]] = map tl ?wsol"
    by simp_all
  from solve_reconstructs [where odeint = euler and store = "\<lambda>_. no_results",
      OF h1 h2 h3 h4 h5 h6 h7 h8 h9 h10 h11 h12 th0 rs0 h13 shape fr sts]
  obtain sv d where
    res: "solve euler ?self example_system (\<lambda>_. no_results) =
           (Inr (results ?self),
            (\<lambda>_. no_results)(results ?self :=
              \<lparr>time = Some [0, 1, 2, 3], displacement = Some d, slider_velocity = Some sv,
               friction = Some [3 / 5, 3 / 5, 3 / 5, 609 / 1000],
               states = Some [[10, 5], [10, 5], [10, 5], [10, 5]]\<rparr>))"
    and lsv: "length sv = length [0, 1, 2, 3 :: real]"
    and sv: "\<forall>j<length [0, 1, 2, 3 :: real].
               (\<forall>i<length [state1, state2].
                  0 < 1 * [[10, 5], [10, 5], [10, 5], [10, 5 :: real]] ! j ! i / [10, 5] ! i) \<longrightarrow>
               sv ! j = Some (1 * exp (([3 / 5, 3 / 5, 3 / 5, 609 / 1000] ! j - 3 / 5
                          - (\<Sum>i<length [state1, state2]. [1 / 100, 1 / 1000] ! i
                               * ln (1 * [[10, 5], [10, 5], [10, 5], [10, 5]] ! j ! i / [10, 5] ! i)))
                          / (1 / 200)))"
    and ld: "length d = length [0, 1, 2, 3 :: real]" and d0: "d ! 0 = 0"
    and d: "\<forall>j. 1 \<le> j \<and> j < length [0, 1, 2, 3 :: real] \<longrightarrow>
               d ! j = d ! (j - 1) + [1, 1, 10, 10] ! (j - 1)
                 * ([0, 1, 2, 3] ! j - [0, 1, 2, 3] ! (j - 1))"
    by blast
  have two: "{..<length [state1, state2]} = {0, 1}"
    by auto
  have pos: "\<And>i. i < length [state1, state2] \<Longrightarrow>
               0 < 1 * [[10, 5], [10, 5], [10, 5], [10, 5 :: real]] ! j ! i / [10, 5] ! i"
    if "j < 4" for j :: nat
    using that by (auto simp: less_Suc_eq numeral_eq_Suc)
  have sv0: "sv ! 0 = Some 1" using sv [rule_format, of 0, OF _ pos] unfolding two by simp
  have sv1: "sv ! 1 = Some 1" using sv [rule_format, of 1, OF _ pos] unfolding two by simp
  have sv2: "sv ! 2 = Some 1" using sv [rule_format, of 2, OF _ pos] unfolding two by simp
  have sv3: "sv ! 3 = Some (exp (9 / 5))" using sv [rule_format, of 3, OF _ pos] unfolding two by simp
  have svs: "sv = [Some 1, Some 1, Some 1, Some (exp (9 / 5))]"
    using lsv sv0 sv1 sv2 sv3
    by (intro nth_equalityI) (auto simp: less_Suc_eq numeral_eq_Suc)
  have d1: "d ! 1 = 1" using d [rule_format, of 1] d0 by simp
  have d2: "d ! 2 = 2" using d [rule_format, of 2] d1 by simp
  have d3: "d ! 3 = 12" using d [rule_format, of 3] d2 by simp
  have ds: "d = [0, 1, 2, 12]"
    using ld d0 d1 d2 d3
    by (intro nth_equalityI) (auto simp: less_Suc_eq numeral_eq_Suc)
  have ?c using res svs ds by simp
  with h1 h2 h3 h4 h5 h6 h7 h8 h9 h10 h11 h12 h13 show ?thesis by blast
qed



subsection \<open>Readiness, ownership of the grid, and the results object\<close>


lemmas solve_defs = solve_def readyCheck_def set_steady_state_def slider_velocity_of_def
  displacement_of_def np_scalar_mul_def np_div_scalar_def np_sub_scalar_def np_log_def
  np_exp_def np_add_def np_sub_def np_mul_def cumsum_def

text \<open>
  C4. The specification has \<open>solve\<close> fail with the error of the readiness check (the
  source's \<^verbatim>\<open>RuntimeError('Not all model parameters set')\<close>) before integrating, whenever a
  required parameter or the state relations are missing or the two arrays differ in
  length. In the code \<open>readyCheck\<close> returns \<^verbatim>\<open>True\<close> whatever is set. With no state
  relation \<open>solve\<close> integrates and returns results; with \<open>vref\<close> unset it raises
  \<^verbatim>\<open>TypeError\<close> at \<^verbatim>\<open>self.Dc/system.vref\<close>; with arrays of different lengths the first step
  raises \<^verbatim>\<open>IndexError\<close> inside the integration.
\<close>

theorem solve_passes_ready_check:
  "readyCheck self = True
   \<and> solve euler \<lparr>model_time = None, loadpoint_velocity = [], results = 0\<rparr>
       (example_system\<lparr>state_relations := [],
          ExternalSystem.model_time := Some [0, 1],
          ExternalSystem.loadpoint_velocity := Some [1, 1]\<rparr>) (\<lambda>_. no_results) =
       (Inr 0,
        (\<lambda>_. no_results)(0 :=
          \<lparr>time = Some [0, 1], displacement = Some [0, 1], slider_velocity = Some [Some 1, Some 1],
           friction = Some [3 / 5, 3 / 5], states = Some [[], []]\<rparr>))
   \<and> solve odeint self (example_system\<lparr>vref := None\<rparr>) store = (Inl TypeError, store)
   \<and> solve euler self (example_system\<lparr>ExternalSystem.loadpoint_velocity := Some [1, 1]\<rparr>) store =
       (Inl IndexError, store)"
proof (intro conjI)
  show "readyCheck self = True"
    by (simp add: readyCheck_def)
  show "solve euler \<lparr>model_time = None, loadpoint_velocity = [], results = 0\<rparr>
       (example_system\<lparr>state_relations := [],
          ExternalSystem.model_time := Some [0, 1],
          ExternalSystem.loadpoint_velocity := Some [1, 1]\<rparr>) (\<lambda>_. no_results) =
       (Inr 0,
        (\<lambda>_. no_results)(0 :=
          \<lparr>time = Some [0, 1], displacement = Some [0, 1], slider_velocity = Some [Some 1, Some 1],
           friction = Some [3 / 5, 3 / 5], states = Some [[], []]\<rparr>))"
    by (simp add: solve_defs step_defs example_system_def ExternalSystem_init_def no_results_def)
  show "solve odeint self (example_system\<lparr>vref := None\<rparr>) store = (Inl TypeError, store)"
    by (simp add: solve_defs arith_defs example_system_def ExternalSystem_init_def state1_def)
  show "solve euler self (example_system\<lparr>ExternalSystem.loadpoint_velocity := Some [1, 1]\<rparr>) store =
       (Inl IndexError, store)"
    by (simp add: solve_defs step_defs example_system_def ExternalSystem_init_def
        state1_def state2_def)
qed


text \<open>
  C7. The specification has \<open>solve\<close> integrate over the simulator's own \<open>model_time\<close> and
  the step look up the simulator's own \<open>loadpoint_velocity\<close>, the two attributes that
  \<^verbatim>\<open>RateState.__init__\<close> creates. In the code neither is ever read: the step and \<open>solve\<close>
  do the same whatever the two hold, and read both sequences from the system. A simulator
  that holds a grid and velocities, with a system set up through the attributes of
  \<^verbatim>\<open>ExternalSystem.__init__\<close> only, raises \<^verbatim>\<open>AttributeError\<close>.
\<close>

theorem simulator_grid_not_read:
  "integrationStep (self\<lparr>RateState.model_time := g, RateState.loadpoint_velocity := l\<rparr>) w t system =
     integrationStep self w t system
   \<and> solve odeint (self\<lparr>RateState.model_time := g, RateState.loadpoint_velocity := l\<rparr>) system store =
     solve odeint self system store
   \<and> integrationStep
       \<lparr>model_time = Some [0, 1, 2, 3], loadpoint_velocity = [1, 1, 10, 10], results = 0\<rparr>
       [3 / 5, 10, 5] 0
       (example_system\<lparr>ExternalSystem.model_time := None,
          ExternalSystem.loadpoint_velocity := None\<rparr>) = Inl AttributeError
   \<and> solve odeint
       \<lparr>model_time = Some [0, 1, 2, 3], loadpoint_velocity = [1, 1, 10, 10], results = 0\<rparr>
       (example_system\<lparr>ExternalSystem.model_time := None,
          ExternalSystem.loadpoint_velocity := None\<rparr>) store = (Inl AttributeError, store)"
proof (intro conjI)
  show "integrationStep (self\<lparr>RateState.model_time := g, RateState.loadpoint_velocity := l\<rparr>) w t system =
     integrationStep self w t system"
    by (simp add: integrationStep_def)
  then have f: "func (self\<lparr>RateState.model_time := g, RateState.loadpoint_velocity := l\<rparr>) = func self"
    by (intro ext) (simp add: func_def integrationStep_def)
  have r: "results (self\<lparr>RateState.model_time := g, RateState.loadpoint_velocity := l\<rparr>) = results self"
    by simp
  show "solve odeint (self\<lparr>RateState.model_time := g, RateState.loadpoint_velocity := l\<rparr>) system store =
     solve odeint self system store"
    unfolding solve_def readyCheck_def f r by (rule refl)
  show "integrationStep
       \<lparr>model_time = Some [0, 1, 2, 3], loadpoint_velocity = [1, 1, 10, 10], results = 0\<rparr>
       [3 / 5, 10, 5] 0
       (example_system\<lparr>ExternalSystem.model_time := None,
          ExternalSystem.loadpoint_velocity := None\<rparr>) = Inl AttributeError"
    by (simp add: step_defs example_system_def ExternalSystem_init_def state1_def state2_def)
  show "solve odeint
       \<lparr>model_time = Some [0, 1, 2, 3], loadpoint_velocity = [1, 1, 10, 10], results = 0\<rparr>
       (example_system\<lparr>ExternalSystem.model_time := None,
          ExternalSystem.loadpoint_velocity := None\<rparr>) store = (Inl AttributeError, store)"
    by (simp add: solve_defs arith_defs example_system_def ExternalSystem_init_def
        state1_def state2_def)
qed

text \<open>
  C8. The specification has the results returned by \<open>solve\<close> unchanged by a later
  \<open>solve\<close> on the same simulator. In the code every call that returns, returns the one
  object created in \<^verbatim>\<open>__init__\<close> (address \<open>0\<close> below) and assigns its attributes anew.
  After a second \<open>solve\<close>, on the grid \<open>[0, 2, 4, 6]\<close>, the object the first call
  returned holds the time, displacement, slider velocity and friction of the second.
\<close>

theorem results_overwritten_by_next_solve:
  "(case fst (solve odeint self system store) of Inl e \<Rightarrow> True | Inr r \<Rightarrow> r = results self)
   \<and> solve euler \<lparr>model_time = None, loadpoint_velocity = [], results = 0\<rparr> example_system
     (\<lambda>_. no_results) =
     (Inr 0,
      (\<lambda>_. no_results)(0 :=
        \<lparr>time = Some [0, 1, 2, 3], displacement = Some [0, 1, 2, 12],
         slider_velocity = Some [Some 1, Some 1, Some 1, Some (exp (9 / 5))],
         friction = Some [3 / 5, 3 / 5, 3 / 5, 609 / 1000],
         states = Some [[10, 5], [10, 5], [10, 5], [10, 5]]\<rparr>))
   \<and> solve euler \<lparr>model_time = None, loadpoint_velocity = [], results = 0\<rparr>
       (example_system\<lparr>ExternalSystem.model_time := Some [0, 2, 4, 6]\<rparr>)
       (snd (solve euler \<lparr>model_time = None, loadpoint_velocity = [], results = 0\<rparr>
               example_system (\<lambda>_. no_results))) =
     (Inr 0,
      (\<lambda>_. no_results)(0 :=
        \<lparr>time = Some [0, 2, 4, 6], displacement = Some [0, 2, 4, 24],
         slider_velocity = Some [Some 1, Some 1, Some 1, Some (exp (18 / 5))],
         friction = Some [3 / 5, 3 / 5, 3 / 5, 618 / 1000],
         states = Some [[10, 5], [10, 5], [10, 5], [10, 5]]\<rparr>))"
proof -
  have first: "solve euler \<lparr>model_time = None, loadpoint_velocity = [], results = 0\<rparr> example_system
     (\<lambda>_. no_results) =
     (Inr 0,
      (\<lambda>_. no_results)(0 :=
        \<lparr>time = Some [0, 1, 2, 3], displacement = Some [0, 1, 2, 12],
         slider_velocity = Some [Some 1, Some 1, Some 1, Some (exp (9 / 5))],
         friction = Some [3 / 5, 3 / 5, 3 / 5, 609 / 1000],
         states = Some [[10, 5], [10, 5], [10, 5], [10, 5]]\<rparr>))"
    by (simp add: solve_defs step_defs example_system_def ExternalSystem_init_def
        state1_def state2_def no_results_def)
  have "solve euler \<lparr>model_time = None, loadpoint_velocity = [], results = 0\<rparr>
       (example_system\<lparr>ExternalSystem.model_time := Some [0, 2, 4, 6]\<rparr>)
       ((\<lambda>_. no_results)(0 :=
        \<lparr>time = Some [0, 1, 2, 3], displacement = Some [0, 1, 2, 12],
         slider_velocity = Some [Some 1, Some 1, Some 1, Some (exp (9 / 5))],
         friction = Some [3 / 5, 3 / 5, 3 / 5, 609 / 1000],
         states = Some [[10, 5], [10, 5], [10, 5], [10, 5]]\<rparr>)) =
     (Inr 0,
      (\<lambda>_. no_results)(0 :=
        \<lparr>time = Some [0, 2, 4, 6], displacement = Some [0, 2, 4, 24],
         slider_velocity = Some [Some 1, Some 1, Some 1, Some (exp (18 / 5))],
         friction = Some [3 / 5, 3 / 5, 3 / 5, 618 / 1000],
         states = Some [[10, 5], [10, 5], [10, 5], [10, 5]]\<rparr>))"
    by (simp add: solve_defs step_defs example_system_def ExternalSystem_init_def
        state1_def state2_def no_results_def)
  moreover have "case fst (solve odeint self system store) of
                   Inl e \<Rightarrow> True | Inr r \<Rightarrow> r = results self"
    by (simp add: solve_def Let_def split: sum.splits)
  ultimately show ?thesis using first by simp
qed

end
